theory Spec2Isabelle
  imports Main
begin

section \<open>Python values\<close>

text \<open>
  A Python \<open>str\<close> is a sequence of Unicode code points, and \<open>chr\<close> reaches every one of
  them, so a string is modelled as the list of its code points (a HOL \<open>char\<close> is a byte and
  could not hold \<open>chr 300\<close>). \<open>lit\<close> turns a literal of the source into that form.
\<close>

type_synonym pystr = "nat list"

definition lit :: "string \<Rightarrow> pystr" where
  "lit s = map of_char s"

datatype error = ValueError | AttributeError

text \<open>\<open>str(n)\<close> and \<open>f"{n}"\<close> for a non-negative integer: its decimal digits.\<close>

fun str_nat :: "nat \<Rightarrow> pystr" where
  "str_nat n = (if n < 10 then [48 + n] else str_nat (n div 10) @ [48 + n mod 10])"

declare str_nat.simps [simp del]

text \<open>\<open>chr(n)\<close>: the one-character string of code point \<open>n\<close>; ValueError from 0x110000 on.\<close>

definition py_chr :: "nat \<Rightarrow> error + pystr" where
  "py_chr n = (if n < 1114112 then Inr [n] else Inl ValueError)"

text \<open>
  What a cell holds. Python floats are not modelled: the type \<open>'f\<close> stands for them.
\<close>

datatype 'f cellval = VNone | VInt int | VFloat 'f | VStr pystr

text \<open>
  Functions the program takes from outside and whose results are left open: the
  built-ins \<open>int\<close> and \<open>float\<close> applied to a string (\<open>None\<close> where they raise ValueError),
  openpyxl's \<open>quote_sheetname\<close>, the method \<open>str.lower\<close>, by which openpyxl compares sheet
  titles, and the title openpyxl makes up (the title asked for, followed by a number)
  when the title asked for is the title of another sheet up to case.
\<close>

record 'f externals =
  py_int :: "pystr \<Rightarrow> int option"
  py_float :: "pystr \<Rightarrow> 'f option"
  quote_sheetname :: "pystr \<Rightarrow> pystr"
  py_lower :: "pystr \<Rightarrow> pystr"
  alternative_title :: "pystr list \<Rightarrow> pystr \<Rightarrow> pystr"

section \<open>The parsed configuration and interview (caastools)\<close>

text \<open>
  The objects of \<open>caastools.parsing.ia\<close>, with the attributes the program reads. A
  property value's description and identifiers are written to cells as they are, so they
  are cell values; a property's \<open>property_id\<close> is only formatted into the sheet name, and
  stands here for its rendering by the f-string. Iterating a property yields \<open>prop_values\<close>.
  \<open>decimal_digits\<close> is only compared with 0: anything that is not 0 may stand as any other
  number.
\<close>

record 'f property_value =
  pv_value :: pystr
  pv_description :: "'f cellval"
  pv_property_value_id :: "'f cellval"
  pv_property_id :: "'f cellval"

record 'f property =
  display_name :: pystr
  property_id :: pystr
  data_type :: pystr
  decimal_digits :: int
  prop_values :: "'f property_value list"

record 'f ia_configuration =
  coding_properties :: "'f property list"
  global_properties :: "'f property list"

record utterance =
  line_number :: int
  utterance_number :: int
  speaker_role :: pystr
  utterance_text :: pystr

record interview_data =
  utterances :: "utterance list"

section \<open>Worksheets and workbooks (openpyxl)\<close>

text \<open>
  A cell range as openpyxl's \<open>CellRange\<close> keeps it: column and row numbers, from 1.
\<close>

record cell_range =
  min_col :: nat
  min_row :: nat
  max_col :: nat
  max_row_of :: nat

record data_validation =
  dv_type :: pystr
  formula1 :: pystr
  allow_blank :: bool
  sqref :: "cell_range list"

text \<open>
  A worksheet: its title, the rows of values in order (row \<open>r\<close> of the sheet is
  \<open>rows ! (r - 1)\<close>; a cell beyond the end of its row is empty), the cells whose protection
  was set to \<open>Protection(locked=False, hidden=False)\<close> as (row, column) pairs, the
  validation rules in the order they were added, and the sheet protection and visibility.
  Borders, alignment, column widths and page setup are presentation and are left out.

  openpyxl is modelled as far as the program reaches it: the cell references and ranges
  the program builds from its counters are parsed and checked as openpyxl (2.5 and later,
  which \<open>DataValidation.add\<close> of a string needs) parses and checks them, a text bound to a
  cell is cut as openpyxl cuts it, and the title of a sheet that \<open>create_sheet\<close> makes is
  checked and chosen as openpyxl checks and chooses it.
\<close>

record 'f worksheet =
  title :: pystr
  rows :: "'f cellval list list"
  unlocked :: "(nat \<times> nat) set"
  data_validations :: "data_validation list"
  protection_enabled :: bool
  protection_password :: "pystr option"
  sheet_state :: pystr

type_synonym 'f workbook = "'f worksheet list"

definition new_worksheet :: "pystr \<Rightarrow> 'f worksheet" where
  "new_worksheet t = \<lparr>title = t, rows = [], unlocked = {}, data_validations = [],
     protection_enabled = False, protection_password = None, sheet_state = lit ''visible''\<rparr>"

text \<open>\<open>Workbook()\<close>: one sheet, titled Sheet, which is the active one.\<close>

definition Workbook :: "unit \<Rightarrow> 'f workbook" where
  "Workbook u = [new_worksheet (lit ''Sheet'')]"

definition sheetnames :: "'f workbook \<Rightarrow> pystr list" where
  "sheetnames wb = map title wb"

text \<open>
  What a cell keeps of the value bound to it (\<open>Cell.check_string\<close>): a text is cut after
  its first 32767 characters, any other value is kept as it is.
\<close>

fun check_string :: "'f cellval \<Rightarrow> 'f cellval" where
  "check_string (VStr s) = VStr (take 32767 s)"
| "check_string v = v"



text \<open>\<open>ws.append(row)\<close> binds the values to the cells of the row after the last one.\<close>

definition ws_append :: "'f worksheet \<Rightarrow> 'f cellval list \<Rightarrow> 'f worksheet" where
  "ws_append ws vals = ws\<lparr>rows := rows ws @ [map check_string vals]\<rparr>"

text \<open>\<open>ws.max_row\<close>: the last row that has a cell; 1 on a sheet without cells.\<close>

definition max_row :: "'f worksheet \<Rightarrow> nat" where
  "max_row ws = (if rows ws = [] then 1 else length (rows ws))"

subsection \<open>Sheet titles\<close>

text \<open>
  The title a sheet made by \<open>create_sheet(title)\<close> gets. openpyxl raises ValueError for a
  title with one of the characters \<^verbatim>\<open>\ * ? : / [ ]\<close>. \<open>avoid_duplicate_name\<close> then looks
  for a title of the workbook that equals the new one once both are lower-cased, and
  makes up another title when there is one. Without a title to start from, the sheet
  would be called Sheet. A title of more than 31 characters only draws a warning
  (openpyxl 3).
\<close>

definition invalid_title_char :: "nat \<Rightarrow> bool" where
  "invalid_title_char c \<longleftrightarrow> c \<in> set [92, 42, 63, 58, 47, 91, 93]"

definition avoid_duplicate_name :: "'f externals \<Rightarrow> pystr list \<Rightarrow> pystr \<Rightarrow> pystr" where
  "avoid_duplicate_name X names v =
     (if py_lower X v \<in> set (map (py_lower X) names) then alternative_title X names v
      else v)"

definition create_title :: "'f externals \<Rightarrow> pystr list \<Rightarrow> pystr \<Rightarrow> error + pystr" where
  "create_title X names t =
     (let v = (if t = [] then lit ''Sheet'' else t)
      in if list_ex invalid_title_char v then Inl ValueError
         else Inr (avoid_duplicate_name X names v))"

subsection \<open>Cell references\<close>

definition is_alpha :: "nat \<Rightarrow> bool" where
  "is_alpha c \<longleftrightarrow> (65 \<le> c \<and> c \<le> 90) \<or> (97 \<le> c \<and> c \<le> 122)"

definition is_digit :: "nat \<Rightarrow> bool" where
  "is_digit c \<longleftrightarrow> 48 \<le> c \<and> c \<le> 57"

definition int_of_digits :: "pystr \<Rightarrow> nat" where
  "int_of_digits ds = foldl (\<lambda>a d. 10 * a + (d - 48)) 0 ds"

definition upper :: "nat \<Rightarrow> nat" where
  "upper c = (if 97 \<le> c \<and> c \<le> 122 then c - 32 else c)"

definition column_index_from_string :: "pystr \<Rightarrow> nat" where
  "column_index_from_string s = foldl (\<lambda>a c. 26 * a + (upper c - 64)) 0 s"

definition strip_dollar :: "pystr \<Rightarrow> pystr" where
  "strip_dollar s = (case s of [] \<Rightarrow> [] | c # r \<Rightarrow> if c = 36 then r else s)"

text \<open>
  One cell reference at the front of a string, as openpyxl's coordinate pattern
  \<^verbatim>\<open>[$]?([A-Za-z]{1,3})[$]?(\d+)\<close> reads it: the (column, row) it names and what follows.
\<close>

definition parse_ref :: "pystr \<Rightarrow> ((nat \<times> nat) \<times> pystr) option" where
  "parse_ref s =
     (let s1 = strip_dollar s;
          letters = takeWhile is_alpha s1;
          s2 = strip_dollar (dropWhile is_alpha s1);
          digits = takeWhile is_digit s2
      in if 1 \<le> length letters \<and> length letters \<le> 3 \<and> digits \<noteq> []
         then Some ((column_index_from_string letters, int_of_digits digits),
                    dropWhile is_digit s2)
         else None)"

text \<open>
  \<open>range_boundaries\<close>: a cell (\<open>B7\<close>) or a range of cells (\<open>D2:D9\<close>); \<open>None\<close> is its
  ValueError for a string that is neither. References to whole rows or whole columns
  (\<open>2:5\<close>, \<open>A:C\<close>), which the program never builds, are not told apart from malformed
  ones.
\<close>

definition range_boundaries :: "pystr \<Rightarrow> cell_range option" where
  "range_boundaries s =
     (case parse_ref s of
        None \<Rightarrow> None
      | Some ((c1, r1), rest) \<Rightarrow>
          (case rest of
             [] \<Rightarrow> Some \<lparr>min_col = c1, min_row = r1, max_col = c1, max_row_of = r1\<rparr>
           | x # rest' \<Rightarrow>
               if x = 58 then
                 (case parse_ref rest' of
                    Some ((c2, r2), []) \<Rightarrow>
                      Some \<lparr>min_col = c1, min_row = r1, max_col = c2, max_row_of = r2\<rparr>
                  | _ \<Rightarrow> None)
               else None))"

text \<open>
  \<open>ws[key].protection = Protection(locked=False, hidden=False)\<close>. Indexing a sheet with a
  string that is no reference raises ValueError; with a range it gives a tuple of rows,
  which has no attribute to assign to. A cell that does not exist yet is created, which
  extends the sheet down to its row.
\<close>

definition ws_unlock :: "'f worksheet \<Rightarrow> pystr \<Rightarrow> error + 'f worksheet" where
  "ws_unlock ws key =
     (case range_boundaries key of
        None \<Rightarrow> Inl ValueError
      | Some cr \<Rightarrow>
          if 58 \<in> set key then Inl AttributeError
          else Inr (ws\<lparr>rows := rows ws @ replicate (min_row cr - length (rows ws)) [],
                       unlocked := insert (min_row cr, min_col cr) (unlocked ws)\<rparr>))"

text \<open>
  \<open>CellRange(s)\<close>, built by \<open>DataValidation.add\<close> for a string: ValueError for a string that
  is no reference, for a row outside 1 to 1048576 (a column of at most three letters is
  within its bounds, 1 to 18278) and for a range whose bounds are in the wrong order.
\<close>

definition row_in_bounds :: "nat \<Rightarrow> bool" where
  "row_in_bounds r \<longleftrightarrow> 1 \<le> r \<and> r \<le> 1048576"

definition CellRange :: "pystr \<Rightarrow> error + cell_range" where
  "CellRange s =
     (case range_boundaries s of
        None \<Rightarrow> Inl ValueError
      | Some cr \<Rightarrow>
          if row_in_bounds (min_row cr) \<and> row_in_bounds (max_row_of cr) then
            if max_col cr < min_col cr \<or> max_row_of cr < min_row cr then Inl ValueError
            else Inr cr
          else Inl ValueError)"

section \<open>The reference-sheet builder\<close>

text \<open>
  The coercion \<open>data_type(pv.value)\<close>, with \<open>data_type\<close> chosen as \<open>int\<close>, \<open>float\<close> or \<open>str\<close>
  from the property. A value is stored as a string, so \<open>str\<close> leaves it as it is.
\<close>

definition coerce :: "'f externals \<Rightarrow> 'f property \<Rightarrow> pystr \<Rightarrow> error + 'f cellval" where
  "coerce X p v =
     (if data_type p = lit ''numeric'' \<and> decimal_digits p = 0 then
        (case py_int X v of None \<Rightarrow> Inl ValueError | Some i \<Rightarrow> Inr (VInt i))
      else if data_type p = lit ''numeric'' then
        (case py_float X v of None \<Rightarrow> Inl ValueError | Some x \<Rightarrow> Inr (VFloat x))
      else Inr (VStr v))"

text \<open>The loop \<open>for pv in property\<close>, one appended row for each value.\<close>

fun append_values ::
  "'f externals \<Rightarrow> 'f property \<Rightarrow> 'f worksheet \<Rightarrow> 'f property_value list \<Rightarrow> error + 'f worksheet"
where
  "append_values X p ws [] = Inr ws"
| "append_values X p ws (pv # pvs) =
     (case coerce X p (pv_value pv) of
        Inl e \<Rightarrow> Inl e
      | Inr v \<Rightarrow>
          append_values X p
            (ws_append ws [v, pv_description pv, pv_property_value_id pv, pv_property_id pv])
            pvs)"

definition sheet_name_of :: "'f property \<Rightarrow> pystr" where
  "sheet_name_of p = display_name p @ lit ''_'' @ property_id p"

definition reference_header :: "pystr list" where
  "reference_header =
     [lit ''property_value'', lit ''property_description'', lit ''property_value_id'',
      lit ''property_id'']"

text \<open>
  \<open>_append_validation_sheet_(workbook, property, sheetpassword)\<close>. The workbook is mutated
  in place in the source, so the model returns it together with the function's result:
  the new sheet, or \<open>None\<close> after the message that the sheet already exists.
  \<open>create_sheet\<close> puts the new sheet last, with the title \<open>create_title\<close> gives it, or
  raises. When \<open>create_sheet\<close> or a coercion raises, the exception is all that is
  returned: the half-filled sheet is in a workbook that \<open>ia2xl\<close> drops with the exception.
\<close>

definition append_validation_sheet ::
  "'f externals \<Rightarrow> 'f workbook \<Rightarrow> 'f property \<Rightarrow> pystr option
     \<Rightarrow> error + ('f workbook \<times> 'f worksheet option)"
where
  "append_validation_sheet X workbook p sheetpassword =
     (let sheet_name = sheet_name_of p;
          pwd = (case sheetpassword of Some s \<Rightarrow> s | None \<Rightarrow> sheet_name)
      in if sheet_name \<notin> set (sheetnames workbook) then
           (case create_title X (sheetnames workbook) sheet_name of
              Inl e \<Rightarrow> Inl e
            | Inr t \<Rightarrow>
                (case append_values X p
                        (ws_append (new_worksheet t) (map VStr reference_header))
                        (prop_values p) of
                   Inl e \<Rightarrow> Inl e
                 | Inr filled \<Rightarrow>
                     (let new_sheet = filled\<lparr>protection_enabled := True,
                                             protection_password := Some pwd,
                                             sheet_state := lit ''hidden''\<rparr>
                      in Inr (workbook @ [new_sheet], Some new_sheet))))
         else Inr (workbook, None))"

section \<open>Validation wiring\<close>

text \<open>
  \<open>_set_global_validation_(data_sheet, row_number, vsheet)\<close>, which nothing calls: the rule
  for the cell of column B in one row.
\<close>

definition set_global_validation ::
  "'f externals \<Rightarrow> 'f worksheet \<Rightarrow> nat \<Rightarrow> 'f worksheet option \<Rightarrow> error + 'f worksheet"
where
  "set_global_validation X data_sheet row_number vsheet =
     (case vsheet of
        None \<Rightarrow> Inl AttributeError
      | Some vs \<Rightarrow>
          (let validation_title = title vs;
               dv = \<lparr>dv_type = lit ''list'',
                     formula1 = quote_sheetname X validation_title @ lit ''!$A$2:$A$''
                                  @ str_nat (max_row vs),
                     allow_blank = True, sqref = []\<rparr>
           in case CellRange (lit ''B'' @ str_nat row_number) of
                Inl e \<Rightarrow> Inl e
              | Inr cr \<Rightarrow>
                  Inr (data_sheet\<lparr>data_validations :=
                         data_validations data_sheet @ [dv\<lparr>sqref := sqref dv @ [cr]\<rparr>]\<rparr>)))"

text \<open>
  \<open>_set_validation_(data_sheet, idx, vsheet, is_global)\<close>, returning the data sheet with
  the rule added. \<open>vsheet\<close> may be \<open>None\<close>, and reading \<open>vsheet.title\<close> then raises
  AttributeError.
\<close>

definition set_validation ::
  "'f externals \<Rightarrow> 'f worksheet \<Rightarrow> pystr \<Rightarrow> 'f worksheet option \<Rightarrow> bool \<Rightarrow> error + 'f worksheet"
where
  "set_validation X data_sheet idx vsheet is_global =
     (case vsheet of
        None \<Rightarrow> Inl AttributeError
      | Some vs \<Rightarrow>
          (let validation_title = title vs;
               dv = \<lparr>dv_type = lit ''list'',
                     formula1 = quote_sheetname X validation_title @ lit ''!$A$2:$A$''
                                  @ str_nat (max_row vs),
                     allow_blank = True, sqref = []\<rparr>;
               column = (if \<not> is_global then idx else lit ''B'');
               cell_address = (if is_global then lit ''B'' @ idx
                               else column @ lit ''2:'' @ column @ str_nat (max_row data_sheet))
           in case CellRange cell_address of
                Inl e \<Rightarrow> Inl e
              | Inr cr \<Rightarrow>
                  Inr (data_sheet\<lparr>data_validations :=
                         data_validations data_sheet @ [dv\<lparr>sqref := sqref dv @ [cr]\<rparr>]\<rparr>)))"

section \<open>The global sheet\<close>

text \<open>
  The loop \<open>for i, row in enumerate(sheet.rows, 1)\<close> with its assignment to
  \<open>sheet[f"B{i}"].protection\<close>; the list holds the values \<open>i\<close> takes.
\<close>

fun unlock_rating_cells :: "'f worksheet \<Rightarrow> nat list \<Rightarrow> error + 'f worksheet" where
  "unlock_rating_cells ws [] = Inr ws"
| "unlock_rating_cells ws (i # js) =
     (case ws_unlock ws (lit ''B'' @ str_nat i) of
        Inl e \<Rightarrow> Inl e
      | Inr ws' \<Rightarrow> unlock_rating_cells ws' js)"

text \<open>
  \<open>_build_global_sheet_(wb, ia_config)\<close>: the workbook with the new sheet at index 1, and
  the sheet. The two titles the program fixes itself, Interview and Global Ratings, are
  given as they are: they have no character a title may not have, and in the workbook
  \<open>ia2xl\<close> builds they are given while no other sheet has a title equal to them up to
  case.
\<close>

definition build_global_sheet ::
  "'f workbook \<Rightarrow> 'f ia_configuration \<Rightarrow> error + ('f workbook \<times> 'f worksheet)"
where
  "build_global_sheet wb ia_config =
     (let sheet0 = ws_append (new_worksheet (lit ''Global Ratings''))
                     [VStr (lit ''Global''), VStr (lit ''Rating'')];
          sheet1 = sheet0\<lparr>protection_enabled := True,
                          protection_password := Some (lit ''Globals'')\<rparr>;
          sheet2 = foldl (\<lambda>s gp. ws_append s [VStr (display_name gp)]) sheet1
                     (global_properties ia_config)
      in case unlock_rating_cells sheet2 [1 ..< Suc (max_row sheet2)] of
           Inl e \<Rightarrow> Inl e
         | Inr sheet \<Rightarrow> Inr (take 1 wb @ [sheet] @ drop 1 wb, sheet))"

section \<open>The interview sheet\<close>

text \<open>
  The inner loop \<open>for col, cp in enumerate(ia_config.coding_properties, 68)\<close>, which
  unlocks \<open>sheet[f"{chr(col)}{i}"]\<close>.
\<close>

fun unlock_coding_cells ::
  "'f worksheet \<Rightarrow> nat \<Rightarrow> nat \<Rightarrow> 'f property list \<Rightarrow> error + 'f worksheet"
where
  "unlock_coding_cells ws i col [] = Inr ws"
| "unlock_coding_cells ws i col (cp # cps) =
     (case py_chr col of
        Inl e \<Rightarrow> Inl e
      | Inr c \<Rightarrow>
          (case ws_unlock ws (c @ str_nat i) of
             Inl e \<Rightarrow> Inl e
           | Inr ws' \<Rightarrow> unlock_coding_cells ws' i (Suc col) cps))"

text \<open>The loop \<open>for i, utt in enumerate(interview.utterances, 1)\<close>.\<close>

fun append_utterances ::
  "'f property list \<Rightarrow> 'f worksheet \<Rightarrow> nat \<Rightarrow> utterance list \<Rightarrow> error + 'f worksheet"
where
  "append_utterances cps ws i [] = Inr ws"
| "append_utterances cps ws i (utt # utts) =
     (let new_line = [VInt (line_number utt), VInt (utterance_number utt),
                      VStr (speaker_role utt)]
                     @ map (\<lambda>cp. VNone) cps @ [VStr (utterance_text utt)]
      in case unlock_coding_cells (ws_append ws new_line) i 68 cps of
           Inl e \<Rightarrow> Inl e
         | Inr ws' \<Rightarrow> append_utterances cps ws' (Suc i) utts)"

text \<open>
  \<open>_build_interview_sheet_(wb, ia_config, interview)\<close>: the workbook with its active sheet
  (the first one) filled, and that sheet. A workbook without sheets has \<open>None\<close> as its
  active sheet, whose title cannot be set. \<open>get_column_letter\<close>, called for the width of the
  text column, raises ValueError beyond column 18278.
\<close>

definition build_interview_sheet ::
  "'f workbook \<Rightarrow> 'f ia_configuration \<Rightarrow> interview_data \<Rightarrow> error + ('f workbook \<times> 'f worksheet)"
where
  "build_interview_sheet wb ia_config interview =
     (case wb of
        [] \<Rightarrow> Inl AttributeError
      | active # others \<Rightarrow>
          (let text_column_number = 3 + length (coding_properties ia_config) + 1;
               column_headers = [lit ''Line'', lit ''Utt'', lit ''Role'']
                                @ map display_name (coding_properties ia_config)
                                @ [lit ''Text''];
               sheet0 = ws_append (active\<lparr>title := lit ''Interview''\<rparr>)
                          (map VStr column_headers);
               sheet1 = sheet0\<lparr>protection_enabled := True,
                               protection_password := Some (lit ''Interview'')\<rparr>
           in case append_utterances (coding_properties ia_config) sheet1 1
                     (utterances interview) of
                Inl e \<Rightarrow> Inl e
              | Inr sheet \<Rightarrow>
                  if 18278 < text_column_number then Inl ValueError
                  else Inr (sheet # others, sheet)))"

section \<open>The orchestrator\<close>

text \<open>
  The state of the loop of \<open>ia2xl\<close>: the workbook and the two counters. The interview
  sheet and the global sheet, which the source holds as \<open>utterances\<close> and \<open>global_data\<close>,
  are the sheets at index 0 and 1 of the workbook; reference sheets come after them.
\<close>

record 'f conv_state =
  cs_wb :: "'f workbook"
  property_column :: nat
  global_row :: nat

text \<open>
  One turn of \<open>for cp in iacfg.coding_properties + iacfg.global_properties\<close>. The flag is
  \<open>isinstance(cp, _GlobalProperty)\<close>: true of the global properties, false of the coding
  ones.
\<close>

definition wire_property ::
  "'f externals \<Rightarrow> 'f conv_state \<Rightarrow> 'f property \<times> bool \<Rightarrow> error + 'f conv_state"
where
  "wire_property X st cpg =
     (case append_validation_sheet X (cs_wb st) (fst cpg) None of
        Inl e \<Rightarrow> Inl e
      | Inr (wb, sheet) \<Rightarrow>
          if snd cpg then
            (let gr = global_row st + 1; idx = str_nat gr
             in case set_validation X (wb ! 1) idx sheet True of
                  Inl e \<Rightarrow> Inl e
                | Inr data_sheet \<Rightarrow> Inr (st\<lparr>cs_wb := wb[1 := data_sheet], global_row := gr\<rparr>))
          else
            (let pc = property_column st + 1
             in case py_chr pc of
                  Inl e \<Rightarrow> Inl e
                | Inr idx \<Rightarrow>
                    (case set_validation X (wb ! 0) idx sheet False of
                       Inl e \<Rightarrow> Inl e
                     | Inr data_sheet \<Rightarrow>
                         Inr (st\<lparr>cs_wb := wb[0 := data_sheet], property_column := pc\<rparr>))))"

fun wire_all ::
  "'f externals \<Rightarrow> 'f conv_state \<Rightarrow> ('f property \<times> bool) list \<Rightarrow> error + 'f conv_state"
where
  "wire_all X st [] = Inr st"
| "wire_all X st (cpg # rest) =
     (case wire_property X st cpg of
        Inl e \<Rightarrow> Inl e
      | Inr st' \<Rightarrow> wire_all X st' rest)"

text \<open>
  \<open>ia2xl(config_path, interview_files)\<close>, from the parsed configuration and interview on.
\<close>

definition ia2xl ::
  "'f externals \<Rightarrow> 'f ia_configuration \<Rightarrow> interview_data \<Rightarrow> error + 'f workbook"
where
  "ia2xl X iacfg interview =
     (case build_interview_sheet (Workbook ()) iacfg interview of
        Inl e \<Rightarrow> Inl e
      | Inr (wb1, utterances_sheet) \<Rightarrow>
          (case build_global_sheet wb1 iacfg of
             Inl e \<Rightarrow> Inl e
           | Inr (wb2, global_data) \<Rightarrow>
               (case wire_all X \<lparr>cs_wb = wb2, property_column = 67, global_row = 1\<rparr>
                       (map (\<lambda>cp. (cp, False)) (coding_properties iacfg)
                        @ map (\<lambda>cp. (cp, True)) (global_properties iacfg)) of
                  Inl e \<Rightarrow> Inl e
                | Inr st \<Rightarrow> Inr (cs_wb st))))"

section \<open>Reading numbers and references back\<close>

lemma str_nat_digits: "d \<in> set (str_nat n) \<Longrightarrow> is_digit d"
proof (induction n arbitrary: d rule: str_nat.induct)
  case (1 n)
  show ?case
  proof (cases "n < 10")
    case True
    with "1.prems" show ?thesis by (simp add: str_nat.simps [of n] is_digit_def)
  next
    case False
    with "1.prems" have "d \<in> set (str_nat (n div 10)) \<or> d = 48 + n mod 10"
      by (auto simp: str_nat.simps [of n])
    then show ?thesis
    proof
      assume "d \<in> set (str_nat (n div 10))"
      with False "1.IH" show ?thesis by simp
    next
      assume "d = 48 + n mod 10"
      moreover have "n mod 10 < 10" by simp
      ultimately show ?thesis unfolding is_digit_def by linarith
    qed
  qed
qed

lemma str_nat_nonempty: "str_nat n \<noteq> []"
  by (simp add: str_nat.simps [of n])

lemma int_of_digits_snoc: "int_of_digits (ds @ [d]) = 10 * int_of_digits ds + (d - 48)"
  by (simp add: int_of_digits_def)

lemma int_of_digits_str_nat: "int_of_digits (str_nat n) = n"
proof (induction n rule: str_nat.induct)
  case (1 n)
  show ?case
  proof (cases "n < 10")
    case True
    then show ?thesis by (simp add: str_nat.simps [of n] int_of_digits_def)
  next
    case False
    with "1.IH" have "int_of_digits (str_nat (n div 10)) = n div 10" by simp
    with False show ?thesis
      by (simp add: str_nat.simps [of n] int_of_digits_snoc)
  qed
qed

lemma is_digit_not_alpha: "is_digit d \<Longrightarrow> \<not> is_alpha d"
  by (auto simp: is_digit_def is_alpha_def)

lemma is_digit_not_dollar: "is_digit d \<Longrightarrow> d \<noteq> 36"
  by (auto simp: is_digit_def)

lemma is_alpha_not_dollar: "is_alpha d \<Longrightarrow> d \<noteq> 36"
  by (auto simp: is_alpha_def)

lemma strip_dollar_id: "s \<noteq> [] \<Longrightarrow> hd s \<noteq> 36 \<Longrightarrow> strip_dollar s = s"
  by (cases s) (simp_all add: strip_dollar_def)

text \<open>
  A reference made of letters and digits is read back as it was written, whatever follows
  it, as long as that is not one more digit.
\<close>

lemma parse_ref_letters_digits:
  assumes "letters \<noteq> []" "length letters \<le> 3" "\<forall>c \<in> set letters. is_alpha c"
    and "ds \<noteq> []" "\<forall>d \<in> set ds. is_digit d"
    and "rest = [] \<or> \<not> is_digit (hd rest)"
  shows "parse_ref (letters @ ds @ rest)
           = Some ((column_index_from_string letters, int_of_digits ds), rest)"
proof -
  have hd1: "hd (letters @ ds @ rest) \<noteq> 36"
    using assms(1,3) by (cases letters) (auto dest: is_alpha_not_dollar)
  have s1: "strip_dollar (letters @ ds @ rest) = letters @ ds @ rest"
    using assms(1) hd1 by (intro strip_dollar_id) auto
  have nd: "\<not> is_alpha (hd (ds @ rest))"
    using assms(4,5) by (cases ds) (auto dest: is_digit_not_alpha)
  have tw: "takeWhile is_alpha (letters @ ds @ rest) = letters"
    using assms(3,4) nd by (cases ds) (auto simp: takeWhile_append2 takeWhile_eq_all_conv)
  have dw: "dropWhile is_alpha (letters @ ds @ rest) = ds @ rest"
    using assms(3,4) nd by (cases ds) (auto simp: dropWhile_append2)
  have s2: "strip_dollar (ds @ rest) = ds @ rest"
    using assms(4,5) by (cases ds) (auto simp: strip_dollar_def dest: is_digit_not_dollar)
  have tw2: "takeWhile is_digit (ds @ rest) = ds"
    using assms(5,6) by (cases rest) (auto simp: takeWhile_append2)
  have dw2: "dropWhile is_digit (ds @ rest) = rest"
    using assms(5,6) by (cases rest) (auto simp: dropWhile_append2)
  show ?thesis
    using assms(1,2,4) by (simp add: parse_ref_def Let_def s1 tw dw s2 tw2 dw2 Suc_le_eq)
qed

lemma parse_ref_not_letter: "\<not> is_alpha c \<Longrightarrow> c \<noteq> 36 \<Longrightarrow> parse_ref (c # s) = None"
  by (simp add: parse_ref_def strip_dollar_def)

lemma str_nat_no_colon: "58 \<notin> set (str_nat n)"
  using str_nat_digits [of 58 n] by (auto simp: is_digit_def)

lemma range_boundaries_cell:
  assumes "letters \<noteq> []" "length letters \<le> 3" "\<forall>c \<in> set letters. is_alpha c"
  shows "range_boundaries (letters @ str_nat n)
           = Some \<lparr>min_col = column_index_from_string letters, min_row = n,
                    max_col = column_index_from_string letters, max_row_of = n\<rparr>"
proof -
  have "parse_ref (letters @ str_nat n @ [])
          = Some ((column_index_from_string letters, int_of_digits (str_nat n)), [])"
    using assms by (intro parse_ref_letters_digits) (auto simp: str_nat_nonempty str_nat_digits)
  then show ?thesis
    by (simp add: range_boundaries_def int_of_digits_str_nat)
qed

lemma range_boundaries_range:
  assumes "letters \<noteq> []" "length letters \<le> 3" "\<forall>c \<in> set letters. is_alpha c"
    and "letters' \<noteq> []" "length letters' \<le> 3" "\<forall>c \<in> set letters'. is_alpha c"
  shows "range_boundaries (letters @ str_nat a @ 58 # letters' @ str_nat b)
           = Some \<lparr>min_col = column_index_from_string letters, min_row = a,
                    max_col = column_index_from_string letters', max_row_of = b\<rparr>"
proof -
  have colon: "\<not> is_digit 58" by (simp add: is_digit_def)
  have p1: "parse_ref (letters @ str_nat a @ (58 # letters' @ str_nat b))
          = Some ((column_index_from_string letters, int_of_digits (str_nat a)),
                  58 # letters' @ str_nat b)"
    using assms(1-3) colon
    by (intro parse_ref_letters_digits) (auto simp: str_nat_nonempty str_nat_digits)
  have p2: "parse_ref (letters' @ str_nat b @ [])
          = Some ((column_index_from_string letters', int_of_digits (str_nat b)), [])"
    using assms(4-6)
    by (intro parse_ref_letters_digits) (auto simp: str_nat_nonempty str_nat_digits)
  from p1 p2 show ?thesis
    by (simp add: range_boundaries_def int_of_digits_str_nat)
qed

lemma range_boundaries_not_letter:
  "\<not> is_alpha c \<Longrightarrow> c \<noteq> 36 \<Longrightarrow> range_boundaries (c # s) = None"
  by (simp add: range_boundaries_def parse_ref_not_letter)

lemma str_nat_2: "str_nat 2 = [50]"
  by (simp add: str_nat.simps)

lemma lit_2_colon: "lit ''2:'' = str_nat 2 @ [58]"
  by (simp add: lit_def str_nat_2)

lemma lit_B: "lit ''B'' = [66]"
  by (simp add: lit_def)

lemma column_index_single: "column_index_from_string [c] = upper c - 64"
  by (simp add: column_index_from_string_def)

lemma column_index_B: "column_index_from_string [66] = 2"
  by (simp add: column_index_from_string_def upper_def)

lemma is_alpha_B: "is_alpha 66"
  by (simp add: is_alpha_def)

lemma ws_unlock_cell:
  assumes "is_alpha c" "i \<le> length (rows ws)"
  shows "ws_unlock ws ([c] @ str_nat i)
           = Inr (ws\<lparr>unlocked := insert (i, upper c - 64) (unlocked ws)\<rparr>)"
proof -
  have "range_boundaries ([c] @ str_nat i)
          = Some \<lparr>min_col = upper c - 64, min_row = i, max_col = upper c - 64, max_row_of = i\<rparr>"
    using assms(1) range_boundaries_cell [of "[c]" i] by (simp add: column_index_single)
  moreover have "c \<noteq> 58" using assms(1) by (auto simp: is_alpha_def)
  ultimately show ?thesis
    using assms(2) by (simp add: ws_unlock_def str_nat_no_colon)
qed

lemma ws_unlock_not_letter:
  "\<not> is_alpha c \<Longrightarrow> c \<noteq> 36 \<Longrightarrow> ws_unlock ws ([c] @ s) = Inl ValueError"
  by (simp add: ws_unlock_def range_boundaries_not_letter)

lemma CellRange_cell:
  assumes "letters \<noteq> []" "length letters \<le> 3" "\<forall>c \<in> set letters. is_alpha c"
  shows "CellRange (letters @ str_nat n)
           = (if row_in_bounds n
              then Inr \<lparr>min_col = column_index_from_string letters, min_row = n,
                        max_col = column_index_from_string letters, max_row_of = n\<rparr>
              else Inl ValueError)"
  using assms by (simp add: CellRange_def range_boundaries_cell)

lemma CellRange_column:
  assumes "letters \<noteq> []" "length letters \<le> 3" "\<forall>c \<in> set letters. is_alpha c"
  shows "CellRange (letters @ lit ''2:'' @ letters @ str_nat n)
           = (if 2 \<le> n \<and> n \<le> 1048576
              then Inr \<lparr>min_col = column_index_from_string letters, min_row = 2,
                        max_col = column_index_from_string letters, max_row_of = n\<rparr>
              else Inl ValueError)"
proof -
  have "range_boundaries (letters @ str_nat 2 @ 58 # letters @ str_nat n)
          = Some \<lparr>min_col = column_index_from_string letters, min_row = 2,
                    max_col = column_index_from_string letters, max_row_of = n\<rparr>"
    using assms by (intro range_boundaries_range)
  then show ?thesis
    by (auto simp: CellRange_def lit_2_colon row_in_bounds_def)
qed


section \<open>Cell texts and sheet titles\<close>

lemma length_lit: "length (lit s) = length s"
  by (simp add: lit_def)

lemma check_string_short: "length s \<le> 32767 \<Longrightarrow> check_string (VStr s) = VStr s"
  by simp

lemma map_check_string_VNone: "map check_string (map (\<lambda>x. VNone) xs) = replicate (length xs) VNone"
  by (induction xs) simp_all

lemma underscore_in_sheet_name: "95 \<in> set (sheet_name_of p)"
  by (simp add: sheet_name_of_def lit_def)

lemma create_title_Inl: "create_title X names t = Inl e \<Longrightarrow> e = ValueError"
  by (auto simp: create_title_def Let_def split: if_splits)

lemma create_title_ok:
  assumes "\<not> list_ex invalid_title_char t" "t \<noteq> []"
    and "py_lower X t \<notin> set (map (py_lower X) names)"
  shows "create_title X names t = Inr t"
  using assms by (simp add: create_title_def avoid_duplicate_name_def)

lemma create_title_refused:
  assumes "list_ex invalid_title_char t"
  shows "create_title X names t = Inl ValueError"
proof -
  from assms have "t \<noteq> []" by auto
  with assms show ?thesis by (simp add: create_title_def)
qed

section \<open>Properties of the loops of the interview sheet\<close>

lemma py_chr_in_range: "n < 1114112 \<Longrightarrow> py_chr n = Inr [n]"
  by (simp add: py_chr_def)

lemma capital_is_alpha: "65 \<le> c \<Longrightarrow> c \<le> 90 \<Longrightarrow> is_alpha c \<and> upper c = c"
  by (simp add: is_alpha_def upper_def)

lemma bracket_not_alpha: "\<not> is_alpha 91"
  by (simp add: is_alpha_def)

lemma unlock_coding_cells_ok:
  "68 \<le> col \<Longrightarrow> col + length cps \<le> 91 \<Longrightarrow> i \<le> length (rows ws) \<Longrightarrow>
   unlock_coding_cells ws i col cps
     = Inr (ws\<lparr>unlocked := unlocked ws
                  \<union> {(r, c). r = i \<and> col - 64 \<le> c \<and> c < col - 64 + length cps}\<rparr>)"
proof (induction cps arbitrary: ws col)
  case Nil
  have e: "unlocked ws \<union> {(r, c). r = i \<and> col - 64 \<le> c
                             \<and> c < col - 64 + length ([] :: 'a property list)} = unlocked ws"
    by auto
  show ?case by (subst e) simp
next
  case (Cons cp cps)
  from Cons.prems have col: "65 \<le> col" "col \<le> 90" "col < 1114112" by simp_all
  have step: "ws_unlock ws ([col] @ str_nat i)
                = Inr (ws\<lparr>unlocked := insert (i, col - 64) (unlocked ws)\<rparr>)"
    using ws_unlock_cell [of col i ws] capital_is_alpha [OF col(1,2)] Cons.prems(3) by simp
  have rest: "unlock_coding_cells (ws\<lparr>unlocked := insert (i, col - 64) (unlocked ws)\<rparr>) i (Suc col) cps
                = Inr (ws\<lparr>unlocked := insert (i, col - 64) (unlocked ws)
                         \<union> {(r, c). r = i \<and> Suc col - 64 \<le> c \<and> c < Suc col - 64 + length cps}\<rparr>)"
    using Cons.IH [of "Suc col" "ws\<lparr>unlocked := insert (i, col - 64) (unlocked ws)\<rparr>"] Cons.prems
    by simp
  have sets: "insert (i, col - 64) (unlocked ws)
                \<union> {(r, c). r = i \<and> Suc col - 64 \<le> c \<and> c < Suc col - 64 + length cps}
              = unlocked ws
                \<union> {(r, c). r = i \<and> col - 64 \<le> c \<and> c < col - 64 + length (cp # cps)}"
    using col(1) by auto
  have "unlock_coding_cells ws i col (cp # cps)
          = unlock_coding_cells (ws\<lparr>unlocked := insert (i, col - 64) (unlocked ws)\<rparr>) i (Suc col) cps"
    using step by (simp add: py_chr_in_range [OF col(3)])
  also note rest
  finally show ?case by (simp only: sets)
qed

lemma unlock_coding_cells_fail:
  "68 \<le> col \<Longrightarrow> col \<le> 91 \<Longrightarrow> 91 < col + length cps \<Longrightarrow> i \<le> length (rows ws) \<Longrightarrow>
   unlock_coding_cells ws i col cps = Inl ValueError"
proof (induction cps arbitrary: ws col)
  case Nil
  then show ?case by simp
next
  case (Cons cp cps)
  show ?case
  proof (cases "col = 91")
    case True
    have "ws_unlock ws ([91] @ str_nat i) = Inl ValueError"
      by (rule ws_unlock_not_letter) (simp_all add: bracket_not_alpha)
    with True show ?thesis by (simp add: py_chr_def)
  next
    case False
    with Cons.prems have col: "65 \<le> col" "col \<le> 90" "col < 1114112" by simp_all
    have step: "ws_unlock ws ([col] @ str_nat i)
                  = Inr (ws\<lparr>unlocked := insert (i, col - 64) (unlocked ws)\<rparr>)"
      using ws_unlock_cell [of col i ws] capital_is_alpha [OF col(1,2)] Cons.prems(4) by simp
    have "unlock_coding_cells (ws\<lparr>unlocked := insert (i, col - 64) (unlocked ws)\<rparr>) i (Suc col) cps
            = Inl ValueError"
      using Cons.IH [of "Suc col" "ws\<lparr>unlocked := insert (i, col - 64) (unlocked ws)\<rparr>"]
        Cons.prems col by simp
    with step show ?thesis by (simp add: py_chr_in_range [OF col(3)])
  qed
qed

lemma append_utterances_ok:
  "length cps \<le> 23 \<Longrightarrow> i \<le> Suc (length (rows ws)) \<Longrightarrow>
   append_utterances cps ws i utts
     = Inr (ws\<lparr>rows := rows ws
                  @ map (\<lambda>utt. map check_string ([VInt (line_number utt), VInt (utterance_number utt),
                                 VStr (speaker_role utt)]
                                @ map (\<lambda>cp. VNone) cps @ [VStr (utterance_text utt)])) utts,
                unlocked := unlocked ws
                  \<union> {(r, c). i \<le> r \<and> r < i + length utts \<and> 4 \<le> c \<and> c < 4 + length cps}\<rparr>)"
proof (induction utts arbitrary: ws i)
  case Nil
  have e: "unlocked ws \<union> {(r, c). i \<le> r \<and> r < i + length ([] :: utterance list)
                             \<and> 4 \<le> c \<and> c < 4 + length cps} = unlocked ws"
    by auto
  show ?case by (subst e) simp
next
  case (Cons utt utts)
  let ?line = "[VInt (line_number utt), VInt (utterance_number utt), VStr (speaker_role utt)]
               @ map (\<lambda>cp. VNone) cps @ [VStr (utterance_text utt)]"
  let ?ws1 = "ws_append ws ?line"
  let ?ws2 = "?ws1\<lparr>unlocked := unlocked ?ws1
                \<union> {(r, c). r = i \<and> 68 - 64 \<le> c \<and> c < 68 - 64 + length cps}\<rparr>"
  have inner: "unlock_coding_cells ?ws1 i 68 cps = Inr ?ws2"
    using Cons.prems by (intro unlock_coding_cells_ok) (simp_all add: ws_append_def)
  have outer: "append_utterances cps ?ws2 (Suc i) utts
     = Inr (?ws2\<lparr>rows := rows ?ws2
                  @ map (\<lambda>utt. map check_string ([VInt (line_number utt), VInt (utterance_number utt),
                                 VStr (speaker_role utt)]
                                @ map (\<lambda>cp. VNone) cps @ [VStr (utterance_text utt)])) utts,
                unlocked := unlocked ?ws2
                  \<union> {(r, c). Suc i \<le> r \<and> r < Suc i + length utts \<and> 4 \<le> c \<and> c < 4 + length cps}\<rparr>)"
    using Cons.prems by (intro Cons.IH) (simp_all add: ws_append_def)
  have sets: "unlocked ws \<union> {(r, c). r = i \<and> 68 - 64 \<le> c \<and> c < 68 - 64 + length cps}
                \<union> {(r, c). Suc i \<le> r \<and> r < Suc i + length utts \<and> 4 \<le> c \<and> c < 4 + length cps}
              = unlocked ws
                \<union> {(r, c). i \<le> r \<and> r < i + length (utt # utts) \<and> 4 \<le> c \<and> c < 4 + length cps}"
    by auto
  have "append_utterances cps ws i (utt # utts) = append_utterances cps ?ws2 (Suc i) utts"
    using inner by (simp add: Let_def)
  also note outer
  also have "?ws2\<lparr>rows := rows ?ws2
                  @ map (\<lambda>utt. map check_string ([VInt (line_number utt), VInt (utterance_number utt),
                                 VStr (speaker_role utt)]
                                @ map (\<lambda>cp. VNone) cps @ [VStr (utterance_text utt)])) utts,
                unlocked := unlocked ?ws2
                  \<union> {(r, c). Suc i \<le> r \<and> r < Suc i + length utts \<and> 4 \<le> c \<and> c < 4 + length cps}\<rparr>
      = ws\<lparr>rows := rows ws
                  @ map (\<lambda>utt. map check_string ([VInt (line_number utt), VInt (utterance_number utt),
                                 VStr (speaker_role utt)]
                                @ map (\<lambda>cp. VNone) cps @ [VStr (utterance_text utt)])) (utt # utts),
                unlocked := unlocked ws
                  \<union> {(r, c). i \<le> r \<and> r < i + length (utt # utts) \<and> 4 \<le> c \<and> c < 4 + length cps}\<rparr>"
    unfolding sets [symmetric] by (simp add: ws_append_def)
  finally show ?case .
qed

lemma append_utterances_fail:
  "23 < length cps \<Longrightarrow> utts \<noteq> [] \<Longrightarrow> i \<le> Suc (length (rows ws)) \<Longrightarrow>
   append_utterances cps ws i utts = Inl ValueError"
proof (cases utts)
  case Nil
  assume "utts \<noteq> []"
  with Nil show ?thesis by simp
next
  case (Cons utt rest)
  assume "23 < length cps" "i \<le> Suc (length (rows ws))"
  then have "unlock_coding_cells
          (ws_append ws ([VInt (line_number utt), VInt (utterance_number utt),
                          VStr (speaker_role utt)]
                         @ map (\<lambda>cp. VNone) cps @ [VStr (utterance_text utt)])) i 68 cps
        = Inl ValueError"
    by (intro unlock_coding_cells_fail) (simp_all add: ws_append_def)
  with Cons show ?thesis by (simp add: Let_def)
qed

section \<open>Properties of the interview sheet\<close>

lemma build_interview_sheet_ok:
  assumes "length (coding_properties ia_config) \<le> 23"
  shows "build_interview_sheet (active # others) ia_config interview
           = Inr (active\<lparr>title := lit ''Interview'',
                   rows := rows active
                     @ map check_string (map VStr ([lit ''Line'', lit ''Utt'', lit ''Role'']
                                 @ map display_name (coding_properties ia_config)
                                 @ [lit ''Text'']))
                     # map (\<lambda>utt. map check_string ([VInt (line_number utt), VInt (utterance_number utt),
                                    VStr (speaker_role utt)]
                                   @ map (\<lambda>cp. VNone) (coding_properties ia_config)
                                   @ [VStr (utterance_text utt)])) (utterances interview),
                   unlocked := unlocked active
                     \<union> {(r, c). 1 \<le> r \<and> r < 1 + length (utterances interview)
                               \<and> 4 \<le> c \<and> c < 4 + length (coding_properties ia_config)},
                   protection_enabled := True,
                   protection_password := Some (lit ''Interview'')\<rparr> # others,
                 active\<lparr>title := lit ''Interview'',
                   rows := rows active
                     @ map check_string (map VStr ([lit ''Line'', lit ''Utt'', lit ''Role'']
                                 @ map display_name (coding_properties ia_config)
                                 @ [lit ''Text'']))
                     # map (\<lambda>utt. map check_string ([VInt (line_number utt), VInt (utterance_number utt),
                                    VStr (speaker_role utt)]
                                   @ map (\<lambda>cp. VNone) (coding_properties ia_config)
                                   @ [VStr (utterance_text utt)])) (utterances interview),
                   unlocked := unlocked active
                     \<union> {(r, c). 1 \<le> r \<and> r < 1 + length (utterances interview)
                               \<and> 4 \<le> c \<and> c < 4 + length (coding_properties ia_config)},
                   protection_enabled := True,
                   protection_password := Some (lit ''Interview'')\<rparr>)"
  using assms
  by (simp add: build_interview_sheet_def Let_def append_utterances_ok ws_append_def)

lemma build_interview_sheet_fail:
  assumes "23 < length (coding_properties ia_config)" "utterances interview \<noteq> []"
  shows "build_interview_sheet (active # others) ia_config interview = Inl ValueError"
  using assms
  by (simp add: build_interview_sheet_def Let_def append_utterances_fail ws_append_def)

lemma build_interview_sheet_no_utterances:
  assumes "utterances interview = []"
    and "build_interview_sheet (active # others) ia_config interview = Inr (wb, sheet)"
  shows "rows sheet = rows active
           @ [map check_string (map VStr ([lit ''Line'', lit ''Utt'', lit ''Role'']
                        @ map display_name (coding_properties ia_config) @ [lit ''Text'']))]"
    and "wb = sheet # others" and "data_validations sheet = data_validations active"
    and "title sheet = lit ''Interview''" and "unlocked sheet = unlocked active"
  using assms
  by (auto simp: build_interview_sheet_def Let_def ws_append_def split: if_splits)

lemma build_interview_sheet_no_utterances_error:
  assumes "utterances interview = []"
    and "build_interview_sheet (active # others) ia_config interview = Inl e"
  shows "e = ValueError"
  using assms
  by (auto simp: build_interview_sheet_def Let_def ws_append_def split: if_splits)

lemma build_interview_sheet_Inr:
  assumes "build_interview_sheet (active # others) ia_config interview = Inr (wb, sheet)"
  shows "wb = sheet # others
       \<and> title sheet = lit ''Interview''
       \<and> data_validations sheet = data_validations active
       \<and> rows sheet = rows active
           @ map check_string (map VStr ([lit ''Line'', lit ''Utt'', lit ''Role'']
                       @ map display_name (coding_properties ia_config) @ [lit ''Text'']))
           # map (\<lambda>utt. map check_string ([VInt (line_number utt), VInt (utterance_number utt),
                          VStr (speaker_role utt)]
                         @ map (\<lambda>cp. VNone) (coding_properties ia_config)
                         @ [VStr (utterance_text utt)])) (utterances interview)"
proof (cases "length (coding_properties ia_config) \<le> 23")
  case True
  from build_interview_sheet_ok [OF True, of active others interview] assms
  show ?thesis by auto
next
  case False
  then have many: "23 < length (coding_properties ia_config)" by simp
  have none: "utterances interview = []"
  proof (rule ccontr)
    assume "utterances interview \<noteq> []"
    from build_interview_sheet_fail [OF many this] assms show False by simp
  qed
  from build_interview_sheet_no_utterances [OF none assms] show ?thesis
    by (simp add: none)
qed

text \<open>
  Claim C7. The interview sheet built in a fresh workbook consists of the header row
  Line, Utt, Role, the display names of the coding properties in configuration order,
  Text, and then of one row for each utterance, in the order of the input: line number,
  utterance number, speaker role, one empty cell for each coding property, text. Row
  \<open>i + 1\<close> of the sheet is the row of utterance \<open>i\<close>. A cell holds the first 32767
  characters of its text; when no display name, speaker role or utterance text is longer
  than that, the rows carry them as they are.
\<close>

theorem interview_sheet_rows:
  assumes "build_interview_sheet (Workbook ()) ia_config interview = Inr (wb, sheet)"
  shows "rows sheet
           = ([VStr (lit ''Line''), VStr (lit ''Utt''), VStr (lit ''Role'')]
              @ map (\<lambda>cp. VStr (take 32767 (display_name cp))) (coding_properties ia_config)
              @ [VStr (lit ''Text'')])
             # map (\<lambda>utt. [VInt (line_number utt), VInt (utterance_number utt),
                            VStr (take 32767 (speaker_role utt))]
                           @ replicate (length (coding_properties ia_config)) VNone
                           @ [VStr (take 32767 (utterance_text utt))]) (utterances interview)
       \<and> ((\<forall>cp \<in> set (coding_properties ia_config). length (display_name cp) \<le> 32767)
            \<and> (\<forall>utt \<in> set (utterances interview).
                  length (speaker_role utt) \<le> 32767 \<and> length (utterance_text utt) \<le> 32767)
          \<longrightarrow> rows sheet
                = map VStr ([lit ''Line'', lit ''Utt'', lit ''Role'']
                            @ map display_name (coding_properties ia_config) @ [lit ''Text''])
                  # map (\<lambda>utt. [VInt (line_number utt), VInt (utterance_number utt),
                                 VStr (speaker_role utt)]
                                @ replicate (length (coding_properties ia_config)) VNone
                                @ [VStr (utterance_text utt)]) (utterances interview))"
proof -
  from assms
  have "build_interview_sheet (new_worksheet (lit ''Sheet'') # []) ia_config interview
          = Inr (wb, sheet)"
    by (simp add: Workbook_def)
  from build_interview_sheet_Inr [OF this]
  have r: "rows sheet
           = ([VStr (lit ''Line''), VStr (lit ''Utt''), VStr (lit ''Role'')]
              @ map (\<lambda>cp. VStr (take 32767 (display_name cp))) (coding_properties ia_config)
              @ [VStr (lit ''Text'')])
             # map (\<lambda>utt. [VInt (line_number utt), VInt (utterance_number utt),
                            VStr (take 32767 (speaker_role utt))]
                           @ replicate (length (coding_properties ia_config)) VNone
                           @ [VStr (take 32767 (utterance_text utt))]) (utterances interview)"
    by (simp add: new_worksheet_def length_lit comp_def map_replicate_const)
  show ?thesis
  proof (intro conjI impI)
    show "rows sheet
           = ([VStr (lit ''Line''), VStr (lit ''Utt''), VStr (lit ''Role'')]
              @ map (\<lambda>cp. VStr (take 32767 (display_name cp))) (coding_properties ia_config)
              @ [VStr (lit ''Text'')])
             # map (\<lambda>utt. [VInt (line_number utt), VInt (utterance_number utt),
                            VStr (take 32767 (speaker_role utt))]
                           @ replicate (length (coding_properties ia_config)) VNone
                           @ [VStr (take 32767 (utterance_text utt))]) (utterances interview)"
      by (rule r)
  next
    assume "(\<forall>cp \<in> set (coding_properties ia_config). length (display_name cp) \<le> 32767)
            \<and> (\<forall>utt \<in> set (utterances interview).
                  length (speaker_role utt) \<le> 32767 \<and> length (utterance_text utt) \<le> 32767)"
    then show "rows sheet
                = map VStr ([lit ''Line'', lit ''Utt'', lit ''Role'']
                            @ map display_name (coding_properties ia_config) @ [lit ''Text''])
                  # map (\<lambda>utt. [VInt (line_number utt), VInt (utterance_number utt),
                                 VStr (speaker_role utt)]
                                @ replicate (length (coding_properties ia_config)) VNone
                                @ [VStr (utterance_text utt)]) (utterances interview)"
      unfolding r by simp
  qed
qed

theorem interview_sheet_rows_witness:
  "\<exists>wb sheet.
     build_interview_sheet (Workbook ())
       \<lparr>coding_properties =
          [\<lparr>display_name = lit ''Intensity'', property_id = lit ''P1'',
            data_type = lit ''numeric'', decimal_digits = 0, prop_values = []\<rparr>],
        global_properties = []\<rparr>
       \<lparr>utterances =
          [\<lparr>line_number = 1, utterance_number = 1, speaker_role = lit ''T'',
            utterance_text = lit ''hello''\<rparr>,
           \<lparr>line_number = 2, utterance_number = 2, speaker_role = lit ''C'',
            utterance_text = lit ''hi''\<rparr>]\<rparr>
       = Inr (wb :: unit workbook, sheet)
     \<and> rows sheet
         = [[VStr (lit ''Line''), VStr (lit ''Utt''), VStr (lit ''Role''),
             VStr (lit ''Intensity''), VStr (lit ''Text'')],
            [VInt 1, VInt 1, VStr (lit ''T''), VNone, VStr (lit ''hello'')],
            [VInt 2, VInt 2, VStr (lit ''C''), VNone, VStr (lit ''hi'')]]"
proof -
  let ?cfg = "\<lparr>coding_properties =
          [\<lparr>display_name = lit ''Intensity'', property_id = lit ''P1'',
            data_type = lit ''numeric'', decimal_digits = 0,
            prop_values = [] :: unit property_value list\<rparr>],
        global_properties = []\<rparr>"
  let ?iv = "\<lparr>utterances =
          [\<lparr>line_number = 1, utterance_number = 1, speaker_role = lit ''T'',
            utterance_text = lit ''hello''\<rparr>,
           \<lparr>line_number = 2, utterance_number = 2, speaker_role = lit ''C'',
            utterance_text = lit ''hi''\<rparr>]\<rparr>"
  obtain wb sheet where built: "build_interview_sheet (Workbook ()) ?cfg ?iv = Inr (wb, sheet)"
    using build_interview_sheet_ok [of ?cfg "new_worksheet (lit ''Sheet'')" "[]" ?iv]
    by (simp add: Workbook_def)
  from interview_sheet_rows [OF built] built show ?thesis
    by (simp add: length_lit)
qed

section \<open>Properties of the global sheet\<close>

lemma unlock_rating_cells_ok:
  "\<forall>i \<in> set js. i \<le> length (rows ws) \<Longrightarrow>
   unlock_rating_cells ws js
     = Inr (ws\<lparr>unlocked := unlocked ws \<union> {(r, c). r \<in> set js \<and> c = 2}\<rparr>)"
proof (induction js arbitrary: ws)
  case Nil
  have e: "unlocked ws \<union> {(r, c). r \<in> set ([] :: nat list) \<and> c = 2} = unlocked ws"
    by auto
  show ?case by (subst e) simp
next
  case (Cons i js)
  have step: "ws_unlock ws (lit ''B'' @ str_nat i)
                = Inr (ws\<lparr>unlocked := insert (i, 2) (unlocked ws)\<rparr>)"
    using ws_unlock_cell [of 66 i ws] Cons.prems
    by (simp add: lit_B is_alpha_B upper_def)
  have rest: "unlock_rating_cells (ws\<lparr>unlocked := insert (i, 2) (unlocked ws)\<rparr>) js
                = Inr (ws\<lparr>unlocked := insert (i, 2) (unlocked ws)
                         \<union> {(r, c). r \<in> set js \<and> c = 2}\<rparr>)"
    using Cons.IH [of "ws\<lparr>unlocked := insert (i, 2) (unlocked ws)\<rparr>"] Cons.prems by simp
  have sets: "insert (i, 2) (unlocked ws) \<union> {(r, c). r \<in> set js \<and> c = 2}
              = unlocked ws \<union> {(r, c). r \<in> set (i # js) \<and> c = 2}"
    by auto
  have "unlock_rating_cells ws (i # js)
          = unlock_rating_cells (ws\<lparr>unlocked := insert (i, 2) (unlocked ws)\<rparr>) js"
    using step by simp
  also note rest
  finally show ?case by (simp only: sets)
qed

lemma foldl_ws_append_eq:
  "foldl (\<lambda>s x. ws_append s (f x)) ws xs
     = ws\<lparr>rows := rows ws @ map (\<lambda>x. map check_string (f x)) xs\<rparr>"
  by (induction xs arbitrary: ws) (simp_all add: ws_append_def)

lemma build_global_sheet_eq:
  "build_global_sheet wb ia_config
     = Inr (take 1 wb
            @ [\<lparr>title = lit ''Global Ratings'',
                rows = [VStr (lit ''Global''), VStr (lit ''Rating'')]
                       # map (\<lambda>gp. [VStr (take 32767 (display_name gp))]) (global_properties ia_config),
                unlocked = {(r, c). 1 \<le> r \<and> r \<le> length (global_properties ia_config) + 1
                                    \<and> c = 2},
                data_validations = [], protection_enabled = True,
                protection_password = Some (lit ''Globals''),
                sheet_state = lit ''visible''\<rparr>]
            @ drop 1 wb,
            \<lparr>title = lit ''Global Ratings'',
              rows = [VStr (lit ''Global''), VStr (lit ''Rating'')]
                     # map (\<lambda>gp. [VStr (take 32767 (display_name gp))]) (global_properties ia_config),
              unlocked = {(r, c). 1 \<le> r \<and> r \<le> length (global_properties ia_config) + 1
                                  \<and> c = 2},
              data_validations = [], protection_enabled = True,
              protection_password = Some (lit ''Globals''),
              sheet_state = lit ''visible''\<rparr>)"
proof -
  let ?gps = "global_properties ia_config"
  let ?s2 = "\<lparr>title = lit ''Global Ratings'',
              rows = [VStr (lit ''Global''), VStr (lit ''Rating'')]
                     # map (\<lambda>gp. [VStr (take 32767 (display_name gp))]) ?gps,
              unlocked = {}, data_validations = [], protection_enabled = True,
              protection_password = Some (lit ''Globals''),
              sheet_state = lit ''visible''\<rparr> :: 'a worksheet"
  have s2: "foldl (\<lambda>s gp. ws_append s [VStr (display_name gp)])
              ((ws_append (new_worksheet (lit ''Global Ratings''))
                  [VStr (lit ''Global''), VStr (lit ''Rating'')])
                \<lparr>protection_enabled := True, protection_password := Some (lit ''Globals'')\<rparr>)
              ?gps = ?s2"
    by (subst foldl_ws_append_eq) (simp add: ws_append_def new_worksheet_def length_lit)
  have mr: "max_row ?s2 = Suc (length ?gps)"
    by (simp add: max_row_def)
  have "unlock_rating_cells ?s2 [1 ..< Suc (max_row ?s2)]
          = Inr (?s2\<lparr>unlocked := unlocked ?s2
                   \<union> {(r, c). r \<in> set [1 ..< Suc (max_row ?s2)] \<and> c = 2}\<rparr>)"
    by (rule unlock_rating_cells_ok) (auto simp: mr)
  moreover have "{(r, c). r \<in> set [1 ..< Suc (max_row ?s2)] \<and> c = 2}
                   = {(r, c). 1 \<le> r \<and> r \<le> length ?gps + 1 \<and> c = (2::nat)}"
    unfolding mr by auto
  ultimately have "unlock_rating_cells ?s2 [1 ..< Suc (max_row ?s2)]
          = Inr (?s2\<lparr>unlocked := {(r, c). 1 \<le> r \<and> r \<le> length ?gps + 1 \<and> c = 2}\<rparr>)"
    by simp
  then show ?thesis
    unfolding build_global_sheet_def Let_def s2 by simp
qed

text \<open>
  Claim C10. On the global sheet the unlocked cells are those of column B in rows 1 to
  the number of global properties plus 1: the header cell B1, which holds Rating, and one
  cell for each global property. No cell of column A is unlocked.
\<close>

theorem global_sheet_unlocked:
  "\<exists>wb' sheet.
     build_global_sheet wb ia_config = Inr (wb', sheet)
     \<and> unlocked sheet
         = {(r, c). 1 \<le> r \<and> r \<le> length (global_properties ia_config) + 1 \<and> c = 2}
     \<and> length (rows sheet) = length (global_properties ia_config) + 1
     \<and> hd (rows sheet) = [VStr (lit ''Global''), VStr (lit ''Rating'')]
     \<and> (1, 2) \<in> unlocked sheet
     \<and> (\<forall>r. (r, 1) \<notin> unlocked sheet)"
  by (simp add: build_global_sheet_eq)

section \<open>The cells the interview sheet unlocks\<close>

text \<open>
  Whenever the interview sheet is built, the cells unlocked are those of the coding
  columns in rows 1 to the number of utterances: the header row is among them and the
  row of the last utterance is not.
\<close>

lemma interview_sheet_unlocked:
  assumes "build_interview_sheet (active # others) ia_config interview = Inr (wb, sheet)"
  shows "unlocked sheet
           = unlocked active
             \<union> {(r, c). 1 \<le> r \<and> r \<le> length (utterances interview)
                       \<and> 4 \<le> c \<and> c < 4 + length (coding_properties ia_config)}"
proof (cases "length (coding_properties ia_config) \<le> 23")
  case True
  have "{(r, c). 1 \<le> r \<and> r < 1 + length (utterances interview)
                       \<and> 4 \<le> c \<and> c < 4 + length (coding_properties ia_config)}
        = {(r, c). 1 \<le> r \<and> r \<le> length (utterances interview)
                       \<and> 4 \<le> c \<and> c < 4 + length (coding_properties ia_config)}"
    by auto
  with build_interview_sheet_ok [OF True, of active others interview] assms
  show ?thesis by auto
next
  case False
  then have many: "23 < length (coding_properties ia_config)" by simp
  have none: "utterances interview = []"
  proof (rule ccontr)
    assume "utterances interview \<noteq> []"
    from build_interview_sheet_fail [OF many this] assms show False by simp
  qed
  from build_interview_sheet_no_utterances(5) [OF none assms] show ?thesis
    by (auto simp: none)
qed

text \<open>
  Claim C2 fails on the code. The loop counts the utterances from 1 and unlocks row \<open>i\<close>
  for utterance \<open>i\<close>, but the header is row 1 and utterance \<open>i\<close> is in row \<open>i + 1\<close>. With
  one coding property and one utterance, the utterance is in row 2, the one unlocked cell
  is D1, in the header row, and the coding cell D2 of the utterance stays locked.
\<close>

theorem interview_unlock_off_by_one:
  "\<exists>wb sheet.
     build_interview_sheet (Workbook ())
       \<lparr>coding_properties =
          [\<lparr>display_name = lit ''Intensity'', property_id = lit ''P1'',
            data_type = lit ''numeric'', decimal_digits = 0, prop_values = []\<rparr>],
        global_properties = []\<rparr>
       \<lparr>utterances =
          [\<lparr>line_number = 1, utterance_number = 1, speaker_role = lit ''T'',
            utterance_text = lit ''hello''\<rparr>]\<rparr>
       = Inr (wb :: unit workbook, sheet)
     \<and> rows sheet
         = [[VStr (lit ''Line''), VStr (lit ''Utt''), VStr (lit ''Role''),
             VStr (lit ''Intensity''), VStr (lit ''Text'')],
            [VInt 1, VInt 1, VStr (lit ''T''), VNone, VStr (lit ''hello'')]]
     \<and> unlocked sheet = {(1, 4)}
     \<and> (2, 4) \<notin> unlocked sheet"
proof -
  let ?cfg = "\<lparr>coding_properties =
          [\<lparr>display_name = lit ''Intensity'', property_id = lit ''P1'',
            data_type = lit ''numeric'', decimal_digits = 0,
            prop_values = [] :: unit property_value list\<rparr>],
        global_properties = []\<rparr>"
  let ?iv = "\<lparr>utterances =
          [\<lparr>line_number = 1, utterance_number = 1, speaker_role = lit ''T'',
            utterance_text = lit ''hello''\<rparr>]\<rparr>"
  have set1: "{(r, c). 1 \<le> r \<and> r < 1 + length (utterances ?iv)
                       \<and> 4 \<le> c \<and> c < 4 + length (coding_properties ?cfg)} = {(1::nat, 4::nat)}"
    by auto
  show ?thesis
    using build_interview_sheet_ok [of ?cfg "new_worksheet (lit ''Sheet'')" "[]" ?iv]
    unfolding set1 by (simp add: Workbook_def new_worksheet_def length_lit)
qed

section \<open>Properties of the reference-sheet builder\<close>

lemma coerce_Inl: "coerce X p v = Inl e \<Longrightarrow> e = ValueError"
  by (auto simp: coerce_def split: if_splits option.splits)

lemma coerce_Inr:
  "coerce X p v = Inr x \<Longrightarrow>
   x = (if data_type p = lit ''numeric'' \<and> decimal_digits p = 0 then VInt (the (py_int X v))
        else if data_type p = lit ''numeric'' then VFloat (the (py_float X v))
        else VStr v)"
  by (auto simp: coerce_def split: if_splits option.splits)

lemma coerce_ok:
  assumes "data_type p = lit ''numeric'' \<and> decimal_digits p = 0 \<longrightarrow> py_int X v \<noteq> None"
    and "data_type p = lit ''numeric'' \<and> decimal_digits p \<noteq> 0 \<longrightarrow> py_float X v \<noteq> None"
  shows "coerce X p v
           = Inr (if data_type p = lit ''numeric'' \<and> decimal_digits p = 0
                  then VInt (the (py_int X v))
                  else if data_type p = lit ''numeric'' then VFloat (the (py_float X v))
                  else VStr v)"
  using assms by (auto simp: coerce_def)

lemma append_values_Inl: "append_values X p ws pvs = Inl e \<Longrightarrow> e = ValueError"
  by (induction pvs arbitrary: ws) (auto split: sum.splits dest: coerce_Inl)

lemma append_values_Inr:
  "append_values X p ws pvs = Inr ws' \<Longrightarrow>
   ws' = ws\<lparr>rows := rows ws
           @ map (\<lambda>pv. map check_string
                         [if data_type p = lit ''numeric'' \<and> decimal_digits p = 0
                          then VInt (the (py_int X (pv_value pv)))
                          else if data_type p = lit ''numeric''
                          then VFloat (the (py_float X (pv_value pv)))
                          else VStr (pv_value pv),
                          pv_description pv, pv_property_value_id pv, pv_property_id pv]) pvs\<rparr>"
proof (induction pvs arbitrary: ws)
  case Nil
  then show ?case by simp
next
  case (Cons pv pvs)
  from Cons.prems obtain v where v: "coerce X p (pv_value pv) = Inr v"
    and rest: "append_values X p
                 (ws_append ws [v, pv_description pv, pv_property_value_id pv, pv_property_id pv])
                 pvs = Inr ws'"
    by (auto split: sum.splits)
  from Cons.IH [OF rest] coerce_Inr [OF v] show ?case
    by (simp add: ws_append_def)
qed

lemma append_values_ok:
  assumes "\<forall>pv \<in> set pvs.
             (data_type p = lit ''numeric'' \<and> decimal_digits p = 0
                \<longrightarrow> py_int X (pv_value pv) \<noteq> None)
           \<and> (data_type p = lit ''numeric'' \<and> decimal_digits p \<noteq> 0
                \<longrightarrow> py_float X (pv_value pv) \<noteq> None)"
  shows "\<exists>ws'. append_values X p ws pvs = Inr ws'"
  using assms
proof (induction pvs arbitrary: ws)
  case Nil
  then show ?case by simp
next
  case (Cons pv pvs)
  have "coerce X p (pv_value pv)
          = Inr (if data_type p = lit ''numeric'' \<and> decimal_digits p = 0
                 then VInt (the (py_int X (pv_value pv)))
                 else if data_type p = lit ''numeric'' then VFloat (the (py_float X (pv_value pv)))
                 else VStr (pv_value pv))"
    using Cons.prems by (intro coerce_ok) simp_all
  moreover have "\<exists>ws'. append_values X p ws0 pvs = Inr ws'" for ws0
    using Cons.prems by (intro Cons.IH) simp
  ultimately show ?case by simp
qed

lemma append_validation_sheet_Inl:
  "append_validation_sheet X wb p pw = Inl e \<Longrightarrow> e = ValueError"
  by (auto simp: append_validation_sheet_def Let_def split: if_splits sum.splits
           dest: append_values_Inl create_title_Inl)

lemma append_validation_sheet_taken:
  "sheet_name_of p \<in> set (sheetnames wb) \<Longrightarrow> append_validation_sheet X wb p pw = Inr (wb, None)"
  by (simp add: append_validation_sheet_def)

lemma append_validation_sheet_refused:
  assumes "sheet_name_of p \<notin> set (sheetnames wb)"
    and "list_ex invalid_title_char (sheet_name_of p)"
  shows "append_validation_sheet X wb p pw = Inl ValueError"
  using assms by (simp add: append_validation_sheet_def create_title_refused)

text \<open>
  What the builder returns for a name that is not taken, whenever it returns: one new
  sheet, last in the workbook, with the title \<open>create_sheet\<close> chose.
\<close>

lemma append_validation_sheet_new:
  assumes "sheet_name_of p \<notin> set (sheetnames wb)"
    and "append_validation_sheet X wb p pw = Inr (wb', r)"
  shows "\<exists>s. r = Some s \<and> wb' = wb @ [s]
           \<and> create_title X (sheetnames wb) (sheet_name_of p) = Inr (title s)
           \<and> rows s = map check_string (map VStr reference_header)
               # map (\<lambda>pv. map check_string
                             [if data_type p = lit ''numeric'' \<and> decimal_digits p = 0
                              then VInt (the (py_int X (pv_value pv)))
                              else if data_type p = lit ''numeric''
                              then VFloat (the (py_float X (pv_value pv)))
                              else VStr (pv_value pv),
                              pv_description pv, pv_property_value_id pv, pv_property_id pv])
                     (prop_values p)
           \<and> unlocked s = {} \<and> data_validations s = [] \<and> protection_enabled s
           \<and> protection_password s = Some (case pw of Some s \<Rightarrow> s | None \<Rightarrow> sheet_name_of p)
           \<and> sheet_state s = lit ''hidden''"
proof -
  from assms obtain t filled where
    ct: "create_title X (sheetnames wb) (sheet_name_of p) = Inr t"
    and filled: "append_values X p (ws_append (new_worksheet t) (map VStr reference_header))
                   (prop_values p) = Inr filled"
    and res: "wb' = wb @ [filled\<lparr>protection_enabled := True,
                 protection_password := Some (case pw of Some s \<Rightarrow> s | None \<Rightarrow> sheet_name_of p),
                 sheet_state := lit ''hidden''\<rparr>]"
             "r = Some (filled\<lparr>protection_enabled := True,
                 protection_password := Some (case pw of Some s \<Rightarrow> s | None \<Rightarrow> sheet_name_of p),
                 sheet_state := lit ''hidden''\<rparr>)"
    by (auto simp: append_validation_sheet_def Let_def split: sum.splits)
  from append_values_Inr [OF filled] res ct show ?thesis
    by (simp add: ws_append_def new_worksheet_def)
qed

lemma no_clash_fresh:
  "py_lower X t \<notin> set (map (py_lower X) names) \<Longrightarrow> t \<notin> set names"
  by auto

text \<open>
  When the builder returns a new sheet: the name has no character a title may not have,
  no title of the workbook equals it up to case, and the coercion accepts the values.
\<close>

lemma append_validation_sheet_ok:
  assumes chars: "\<not> list_ex invalid_title_char (sheet_name_of p)"
    and nocl: "py_lower X (sheet_name_of p) \<notin> set (map (py_lower X) (sheetnames wb))"
    and vals: "\<forall>pv \<in> set (prop_values p).
             (data_type p = lit ''numeric'' \<and> decimal_digits p = 0
                \<longrightarrow> py_int X (pv_value pv) \<noteq> None)
           \<and> (data_type p = lit ''numeric'' \<and> decimal_digits p \<noteq> 0
                \<longrightarrow> py_float X (pv_value pv) \<noteq> None)"
  shows "\<exists>s. append_validation_sheet X wb p pw = Inr (wb @ [s], Some s)
           \<and> title s = sheet_name_of p
           \<and> rows s = map check_string (map VStr reference_header)
               # map (\<lambda>pv. map check_string
                             [if data_type p = lit ''numeric'' \<and> decimal_digits p = 0
                              then VInt (the (py_int X (pv_value pv)))
                              else if data_type p = lit ''numeric''
                              then VFloat (the (py_float X (pv_value pv)))
                              else VStr (pv_value pv),
                              pv_description pv, pv_property_value_id pv, pv_property_id pv])
                     (prop_values p)
           \<and> unlocked s = {} \<and> data_validations s = [] \<and> protection_enabled s
           \<and> protection_password s = Some (case pw of Some s \<Rightarrow> s | None \<Rightarrow> sheet_name_of p)
           \<and> sheet_state s = lit ''hidden''"
proof -
  from nocl have fresh: "sheet_name_of p \<notin> set (sheetnames wb)"
    by (rule no_clash_fresh)
  from underscore_in_sheet_name [of p] have ne: "sheet_name_of p \<noteq> []"
    by auto
  from create_title_ok [OF chars ne nocl]
  have ct: "create_title X (sheetnames wb) (sheet_name_of p) = Inr (sheet_name_of p)" .
  from append_values_ok [OF vals]
  obtain filled where
    "append_values X p (ws_append (new_worksheet (sheet_name_of p)) (map VStr reference_header))
       (prop_values p) = Inr filled"
    by blast
  with fresh ct obtain wb' r where res: "append_validation_sheet X wb p pw = Inr (wb', r)"
    by (simp add: append_validation_sheet_def Let_def)
  from append_validation_sheet_new [OF fresh res] res ct show ?thesis
    by auto
qed

lemma reference_header_cells:
  "map check_string (map VStr reference_header)
     = [VStr (lit ''property_value''), VStr (lit ''property_description''),
        VStr (lit ''property_value_id''), VStr (lit ''property_id'')]"
  by (simp add: reference_header_def length_lit)



lemma filter_distinct_member:
  "distinct (map f xs) \<Longrightarrow> y \<in> set (map f xs) \<Longrightarrow> length (filter (\<lambda>x. f x = y) xs) = 1"
proof (induction xs)
  case Nil
  then show ?case by simp
next
  case (Cons x xs)
  show ?case
  proof (cases "f x = y")
    case True
    with Cons.prems have "f x \<notin> f ` set xs" by simp
    with True have "\<forall>z \<in> set xs. f z \<noteq> y" by blast
    then have "filter (\<lambda>x. f x = y) xs = []"
      by (simp add: filter_empty_conv)
    with True show ?thesis by simp
  next
    case False
    with Cons show ?thesis by auto
  qed
qed



section \<open>Properties of the validation wiring\<close>

lemma set_validation_None: "set_validation X data_sheet idx None is_global = Inl AttributeError"
  by (simp add: set_validation_def)

text \<open>The function that nothing calls does what the global mode of the other does.\<close>

lemma set_global_validation_eq:
  "set_global_validation X data_sheet row_number vsheet
     = set_validation X data_sheet (str_nat row_number) vsheet True"
  by (simp add: set_global_validation_def set_validation_def Let_def split: option.splits)

lemma set_validation_Inr:
  assumes "set_validation X data_sheet idx vsheet is_global = Inr ds'"
  shows "\<exists>vs cr. vsheet = Some vs
           \<and> CellRange (if is_global then lit ''B'' @ idx
                         else idx @ lit ''2:'' @ idx @ str_nat (max_row data_sheet)) = Inr cr
           \<and> ds' = data_sheet\<lparr>data_validations := data_validations data_sheet
                      @ [\<lparr>dv_type = lit ''list'',
                          formula1 = quote_sheetname X (title vs) @ lit ''!$A$2:$A$''
                                       @ str_nat (max_row vs),
                          allow_blank = True, sqref = [cr]\<rparr>]\<rparr>"
  using assms
  by (cases vsheet; cases is_global)
     (auto simp: set_validation_def Let_def split: sum.splits)

lemma set_validation_global:
  assumes "row_in_bounds r"
  shows "set_validation X data_sheet (str_nat r) (Some vs) True
           = Inr (data_sheet\<lparr>data_validations := data_validations data_sheet
                    @ [\<lparr>dv_type = lit ''list'',
                        formula1 = quote_sheetname X (title vs) @ lit ''!$A$2:$A$''
                                     @ str_nat (max_row vs),
                        allow_blank = True,
                        sqref = [\<lparr>min_col = 2, min_row = r, max_col = 2, max_row_of = r\<rparr>]\<rparr>]\<rparr>)"
proof -
  have "CellRange ([66] @ str_nat r)
          = Inr \<lparr>min_col = 2, min_row = r, max_col = 2, max_row_of = r\<rparr>"
    using assms CellRange_cell [of "[66]" r] by (simp add: is_alpha_B column_index_B)
  then show ?thesis
    by (simp add: set_validation_def Let_def lit_B)
qed

lemma set_validation_column:
  assumes "letters \<noteq> []" "length letters \<le> 3" "\<forall>c \<in> set letters. is_alpha c"
    and "2 \<le> max_row data_sheet" "max_row data_sheet \<le> 1048576"
  shows "set_validation X data_sheet letters (Some vs) False
           = Inr (data_sheet\<lparr>data_validations := data_validations data_sheet
                    @ [\<lparr>dv_type = lit ''list'',
                        formula1 = quote_sheetname X (title vs) @ lit ''!$A$2:$A$''
                                     @ str_nat (max_row vs),
                        allow_blank = True,
                        sqref = [\<lparr>min_col = column_index_from_string letters, min_row = 2,
                                  max_col = column_index_from_string letters,
                                  max_row_of = max_row data_sheet\<rparr>]\<rparr>]\<rparr>)"
  using assms CellRange_column [of letters "max_row data_sheet"]
  by (simp add: set_validation_def Let_def)

text \<open>
  Claim C5. A rule that \<open>_set_validation_\<close> installs is a list rule that allows blanks,
  and its source is column A of the reference sheet from row 2 to that sheet's last row.
  In global mode, with a row index in the sheet's range, the rule is installed and
  targets the one cell of column B in that row. In column mode, with a column identifier
  (one to three letters) and a data sheet whose last row is at least 2, the rule is
  installed and targets that column from row 2 to the data sheet's last row.
\<close>

theorem validation_rule_shape:
  "(set_validation X data_sheet idx vsheet is_global = Inr ds' \<longrightarrow>
      (\<exists>vs cr. vsheet = Some vs
         \<and> data_validations ds'
             = data_validations data_sheet
               @ [\<lparr>dv_type = lit ''list'',
                   formula1 = quote_sheetname X (title vs) @ lit ''!$A$2:$A$''
                                @ str_nat (max_row vs),
                   allow_blank = True, sqref = [cr]\<rparr>]))
   \<and> (row_in_bounds r \<longrightarrow>
        set_validation X data_sheet (str_nat r) (Some vs') True
          = Inr (data_sheet\<lparr>data_validations := data_validations data_sheet
                   @ [\<lparr>dv_type = lit ''list'',
                       formula1 = quote_sheetname X (title vs') @ lit ''!$A$2:$A$''
                                    @ str_nat (max_row vs'),
                       allow_blank = True,
                       sqref = [\<lparr>min_col = 2, min_row = r, max_col = 2, max_row_of = r\<rparr>]\<rparr>]\<rparr>))
   \<and> (letters \<noteq> [] \<and> length letters \<le> 3 \<and> list_all is_alpha letters
        \<and> 2 \<le> max_row data_sheet \<and> max_row data_sheet \<le> 1048576 \<longrightarrow>
        set_validation X data_sheet letters (Some vs') False
          = Inr (data_sheet\<lparr>data_validations := data_validations data_sheet
                   @ [\<lparr>dv_type = lit ''list'',
                       formula1 = quote_sheetname X (title vs') @ lit ''!$A$2:$A$''
                                    @ str_nat (max_row vs'),
                       allow_blank = True,
                       sqref = [\<lparr>min_col = column_index_from_string letters, min_row = 2,
                                 max_col = column_index_from_string letters,
                                 max_row_of = max_row data_sheet\<rparr>]\<rparr>]\<rparr>))"
proof (intro conjI impI)
  assume "set_validation X data_sheet idx vsheet is_global = Inr ds'"
  from set_validation_Inr [OF this]
  show "\<exists>vs cr. vsheet = Some vs
         \<and> data_validations ds'
             = data_validations data_sheet
               @ [\<lparr>dv_type = lit ''list'',
                   formula1 = quote_sheetname X (title vs) @ lit ''!$A$2:$A$''
                                @ str_nat (max_row vs),
                   allow_blank = True, sqref = [cr]\<rparr>]"
    by auto
next
  assume "row_in_bounds r"
  then show "set_validation X data_sheet (str_nat r) (Some vs') True
          = Inr (data_sheet\<lparr>data_validations := data_validations data_sheet
                   @ [\<lparr>dv_type = lit ''list'',
                       formula1 = quote_sheetname X (title vs') @ lit ''!$A$2:$A$''
                                    @ str_nat (max_row vs'),
                       allow_blank = True,
                       sqref = [\<lparr>min_col = 2, min_row = r, max_col = 2, max_row_of = r\<rparr>]\<rparr>]\<rparr>)"
    by (rule set_validation_global)
next
  assume "letters \<noteq> [] \<and> length letters \<le> 3 \<and> list_all is_alpha letters
        \<and> 2 \<le> max_row data_sheet \<and> max_row data_sheet \<le> 1048576"
  then show "set_validation X data_sheet letters (Some vs') False
          = Inr (data_sheet\<lparr>data_validations := data_validations data_sheet
                   @ [\<lparr>dv_type = lit ''list'',
                       formula1 = quote_sheetname X (title vs') @ lit ''!$A$2:$A$''
                                    @ str_nat (max_row vs'),
                       allow_blank = True,
                       sqref = [\<lparr>min_col = column_index_from_string letters, min_row = 2,
                                 max_col = column_index_from_string letters,
                                 max_row_of = max_row data_sheet\<rparr>]\<rparr>]\<rparr>)"
    by (intro set_validation_column) (simp_all add: list_all_iff)
qed

lemma str_nat_1: "str_nat 1 = [49]"
  by (simp add: str_nat.simps)

lemma str_nat_4: "str_nat 4 = [52]"
  by (simp add: str_nat.simps)

theorem validation_rule_shape_witness:
  "set_validation
     \<lparr>py_int = (\<lambda>s. None), py_float = (\<lambda>s. None :: unit option),
      quote_sheetname = (\<lambda>s. lit [CHR 0x27] @ s @ lit [CHR 0x27]),
      py_lower = map (\<lambda>c. if 65 \<le> c \<and> c \<le> 90 then c + 32 else c),
      alternative_title = (\<lambda>names v. v @ lit ''1'')\<rparr>
     ((new_worksheet (lit ''Global Ratings''))
        \<lparr>rows := [[VStr (lit ''Global''), VStr (lit ''Rating'')], [VStr (lit ''Engagement'')]]\<rparr>)
     (str_nat 2)
     (Some ((new_worksheet (lit ''Intensity_P1''))
              \<lparr>rows := [[VStr (lit ''property_value'')], [VInt 1], [VInt 2], [VInt 3]]\<rparr>))
     True
   = Inr ((new_worksheet (lit ''Global Ratings''))
        \<lparr>rows := [[VStr (lit ''Global''), VStr (lit ''Rating'')], [VStr (lit ''Engagement'')]],
         data_validations :=
           [\<lparr>dv_type = lit ''list'',
             formula1 = lit [CHR 0x27] @ lit ''Intensity_P1'' @ lit [CHR 0x27]
                        @ lit ''!$A$2:$A$4'',
             allow_blank = True,
             sqref = [\<lparr>min_col = 2, min_row = 2, max_col = 2, max_row_of = 2\<rparr>]\<rparr>]\<rparr>)
   \<and> set_validation
     \<lparr>py_int = (\<lambda>s. None), py_float = (\<lambda>s. None :: unit option),
      quote_sheetname = (\<lambda>s. lit [CHR 0x27] @ s @ lit [CHR 0x27]),
      py_lower = map (\<lambda>c. if 65 \<le> c \<and> c \<le> 90 then c + 32 else c),
      alternative_title = (\<lambda>names v. v @ lit ''1'')\<rparr>
     ((new_worksheet (lit ''Interview''))
        \<lparr>rows := [[VStr (lit ''Line'')], [VInt 1], [VInt 2]]\<rparr>)
     (lit ''D'')
     (Some ((new_worksheet (lit ''Intensity_P1''))
              \<lparr>rows := [[VStr (lit ''property_value'')], [VInt 1], [VInt 2], [VInt 3]]\<rparr>))
     False
   = Inr ((new_worksheet (lit ''Interview''))
        \<lparr>rows := [[VStr (lit ''Line'')], [VInt 1], [VInt 2]],
         data_validations :=
           [\<lparr>dv_type = lit ''list'',
             formula1 = lit [CHR 0x27] @ lit ''Intensity_P1'' @ lit [CHR 0x27]
                        @ lit ''!$A$2:$A$4'',
             allow_blank = True,
             sqref = [\<lparr>min_col = 4, min_row = 2, max_col = 4, max_row_of = 3\<rparr>]\<rparr>]\<rparr>)"
proof -
  let ?X = "\<lparr>py_int = (\<lambda>s. None), py_float = (\<lambda>s. None :: unit option),
      quote_sheetname = (\<lambda>s. lit [CHR 0x27] @ s @ lit [CHR 0x27]),
      py_lower = map (\<lambda>c. if 65 \<le> c \<and> c \<le> 90 then c + 32 else c),
      alternative_title = (\<lambda>names v. v @ lit ''1'')\<rparr>"
  let ?g = "(new_worksheet (lit ''Global Ratings''))
        \<lparr>rows := [[VStr (lit ''Global''), VStr (lit ''Rating'')],
                  [VStr (lit ''Engagement'')]]\<rparr> :: unit worksheet"
  let ?d = "(new_worksheet (lit ''Interview''))
        \<lparr>rows := [[VStr (lit ''Line'')], [VInt 1], [VInt 2]]\<rparr> :: unit worksheet"
  let ?vs = "(new_worksheet (lit ''Intensity_P1''))
        \<lparr>rows := [[VStr (lit ''property_value'')], [VInt 1], [VInt 2], [VInt 3]]\<rparr>
        :: unit worksheet"
  have tail: "lit ''!$A$2:$A$'' @ [52] = lit ''!$A$2:$A$4''"
    by (simp add: lit_def)
  have D: "list_all is_alpha (lit ''D'')" "column_index_from_string (lit ''D'') = 4"
    by (simp_all add: lit_def is_alpha_def column_index_from_string_def upper_def)
  have a: "set_validation ?X ?g (str_nat 2) (Some ?vs) True
          = Inr (?g\<lparr>data_validations := data_validations ?g
                   @ [\<lparr>dv_type = lit ''list'',
                       formula1 = quote_sheetname ?X (title ?vs) @ lit ''!$A$2:$A$''
                                    @ str_nat (max_row ?vs),
                       allow_blank = True,
                       sqref = [\<lparr>min_col = 2, min_row = 2, max_col = 2, max_row_of = 2\<rparr>]\<rparr>]\<rparr>)"
    using validation_rule_shape [where r = 2 and X = ?X and data_sheet = ?g and vs' = ?vs]
    by (simp add: row_in_bounds_def)
  have b: "set_validation ?X ?d (lit ''D'') (Some ?vs) False
          = Inr (?d\<lparr>data_validations := data_validations ?d
                   @ [\<lparr>dv_type = lit ''list'',
                       formula1 = quote_sheetname ?X (title ?vs) @ lit ''!$A$2:$A$''
                                    @ str_nat (max_row ?vs),
                       allow_blank = True,
                       sqref = [\<lparr>min_col = column_index_from_string (lit ''D''), min_row = 2,
                                 max_col = column_index_from_string (lit ''D''),
                                 max_row_of = max_row ?d\<rparr>]\<rparr>]\<rparr>)"
    using validation_rule_shape [where letters = "lit ''D''" and X = ?X and data_sheet = ?d
                                  and vs' = ?vs] D(1)
    by (simp add: max_row_def new_worksheet_def lit_def)
  have mr: "max_row ?vs = 4" "max_row ?d = 3"
    by (simp_all add: max_row_def new_worksheet_def)
  show ?thesis
    unfolding a b mr D(2) str_nat_4
    by (simp add: new_worksheet_def tail)
qed

text \<open>
  Claim C9. For a property without values whose sheet name openpyxl takes as the title
  of a new sheet (none of the characters \<^verbatim>\<open>\ * ? : / [ ]\<close> in it, and no sheet of the
  workbook with that title, not even up to case), the builder returns a reference sheet
  that holds the header row alone, so its last row is row 1. A rule wired to it is
  installed as for any other sheet, in global mode and in column mode alike, and its
  source is column A from row 2 to row 1: no row below the header.
\<close>

theorem empty_property_reference_sheet:
  assumes "prop_values p = []"
    and "\<not> list_ex invalid_title_char (sheet_name_of p)"
    and "py_lower X (sheet_name_of p) \<notin> set (map (py_lower X) (sheetnames wb))"
  shows "\<exists>sheet.
           append_validation_sheet X wb p pw = Inr (wb @ [sheet], Some sheet)
         \<and> title sheet = sheet_name_of p
         \<and> rows sheet
             = [[VStr (lit ''property_value''), VStr (lit ''property_description''),
                 VStr (lit ''property_value_id''), VStr (lit ''property_id'')]]
         \<and> max_row sheet = 1
         \<and> (\<forall>data_sheet r. row_in_bounds r \<longrightarrow>
               set_validation X data_sheet (str_nat r) (Some sheet) True
                 = Inr (data_sheet\<lparr>data_validations := data_validations data_sheet
                     @ [\<lparr>dv_type = lit ''list'',
                         formula1 = quote_sheetname X (sheet_name_of p) @ lit ''!$A$2:$A$1'',
                         allow_blank = True,
                         sqref = [\<lparr>min_col = 2, min_row = r, max_col = 2, max_row_of = r\<rparr>]\<rparr>]\<rparr>))
         \<and> (\<forall>data_sheet c. is_alpha c \<and> 2 \<le> max_row data_sheet
                               \<and> max_row data_sheet \<le> 1048576 \<longrightarrow>
               set_validation X data_sheet [c] (Some sheet) False
                 = Inr (data_sheet\<lparr>data_validations := data_validations data_sheet
                     @ [\<lparr>dv_type = lit ''list'',
                         formula1 = quote_sheetname X (sheet_name_of p) @ lit ''!$A$2:$A$1'',
                         allow_blank = True,
                         sqref = [\<lparr>min_col = upper c - 64, min_row = 2,
                                   max_col = upper c - 64,
                                   max_row_of = max_row data_sheet\<rparr>]\<rparr>]\<rparr>))"
proof -
  have vals: "\<forall>pv \<in> set (prop_values p).
             (data_type p = lit ''numeric'' \<and> decimal_digits p = 0
                \<longrightarrow> py_int X (pv_value pv) \<noteq> None)
           \<and> (data_type p = lit ''numeric'' \<and> decimal_digits p \<noteq> 0
                \<longrightarrow> py_float X (pv_value pv) \<noteq> None)"
    using assms(1) by simp
  from append_validation_sheet_ok [OF assms(2,3) vals, of pw] obtain sheet where
    built: "append_validation_sheet X wb p pw = Inr (wb @ [sheet], Some sheet)"
    and ts: "title sheet = sheet_name_of p"
    and rs: "rows sheet = map check_string (map VStr reference_header)
               # map (\<lambda>pv. map check_string
                             [if data_type p = lit ''numeric'' \<and> decimal_digits p = 0
                              then VInt (the (py_int X (pv_value pv)))
                              else if data_type p = lit ''numeric''
                              then VFloat (the (py_float X (pv_value pv)))
                              else VStr (pv_value pv),
                              pv_description pv, pv_property_value_id pv, pv_property_id pv])
                     (prop_values p)"
    by blast
  have rows1: "rows sheet
             = [[VStr (lit ''property_value''), VStr (lit ''property_description''),
                 VStr (lit ''property_value_id''), VStr (lit ''property_id'')]]"
    unfolding rs reference_header_cells by (simp add: assms(1))
  have mr: "max_row sheet = 1"
    by (simp add: max_row_def rows1)
  have tail: "lit ''!$A$2:$A$'' @ str_nat 1 = lit ''!$A$2:$A$1''"
    unfolding str_nat_1 by (simp add: lit_def)
  have g: "set_validation X data_sheet (str_nat r) (Some sheet) True
                 = Inr (data_sheet\<lparr>data_validations := data_validations data_sheet
                     @ [\<lparr>dv_type = lit ''list'',
                         formula1 = quote_sheetname X (sheet_name_of p) @ lit ''!$A$2:$A$1'',
                         allow_blank = True,
                         sqref = [\<lparr>min_col = 2, min_row = r, max_col = 2, max_row_of = r\<rparr>]\<rparr>]\<rparr>)"
    if "row_in_bounds r" for data_sheet :: "'a worksheet" and r
    using set_validation_global [OF that, of X data_sheet sheet]
    unfolding mr ts tail .
  have c: "set_validation X data_sheet [c] (Some sheet) False
                 = Inr (data_sheet\<lparr>data_validations := data_validations data_sheet
                     @ [\<lparr>dv_type = lit ''list'',
                         formula1 = quote_sheetname X (sheet_name_of p) @ lit ''!$A$2:$A$1'',
                         allow_blank = True,
                         sqref = [\<lparr>min_col = upper c - 64, min_row = 2,
                                   max_col = upper c - 64,
                                   max_row_of = max_row data_sheet\<rparr>]\<rparr>]\<rparr>)"
    if "is_alpha c \<and> 2 \<le> max_row data_sheet \<and> max_row data_sheet \<le> 1048576"
    for data_sheet :: "'a worksheet" and c
  proof -
    from that have "set_validation X data_sheet [c] (Some sheet) False
           = Inr (data_sheet\<lparr>data_validations := data_validations data_sheet
                    @ [\<lparr>dv_type = lit ''list'',
                        formula1 = quote_sheetname X (title sheet) @ lit ''!$A$2:$A$''
                                     @ str_nat (max_row sheet),
                        allow_blank = True,
                        sqref = [\<lparr>min_col = column_index_from_string [c], min_row = 2,
                                  max_col = column_index_from_string [c],
                                  max_row_of = max_row data_sheet\<rparr>]\<rparr>]\<rparr>)"
      by (intro set_validation_column) simp_all
    then show ?thesis
      unfolding mr ts tail column_index_single .
  qed
  show ?thesis
    using built ts rows1 mr g c
    by (intro exI [of _ sheet]) simp
qed

theorem empty_property_reference_sheet_witness:
  "\<exists>sheet.
     append_validation_sheet
       \<lparr>py_int = (\<lambda>s. None), py_float = (\<lambda>s. None :: unit option),
        quote_sheetname = (\<lambda>s. lit [CHR 0x27] @ s @ lit [CHR 0x27]),
        py_lower = map (\<lambda>c. if 65 \<le> c \<and> c \<le> 90 then c + 32 else c),
        alternative_title = (\<lambda>names v. v @ lit ''1'')\<rparr>
       (Workbook ())
       \<lparr>display_name = lit ''Mood'', property_id = lit ''G9'', data_type = lit ''text'',
        decimal_digits = 0, prop_values = []\<rparr>
       None
       = Inr (Workbook () @ [sheet], Some sheet)
     \<and> title sheet = lit ''Mood_G9''
     \<and> rows sheet
         = [[VStr (lit ''property_value''), VStr (lit ''property_description''),
             VStr (lit ''property_value_id''), VStr (lit ''property_id'')]]
     \<and> max_row sheet = 1
     \<and> set_validation
         \<lparr>py_int = (\<lambda>s. None), py_float = (\<lambda>s. None :: unit option),
          quote_sheetname = (\<lambda>s. lit [CHR 0x27] @ s @ lit [CHR 0x27]),
          py_lower = map (\<lambda>c. if 65 \<le> c \<and> c \<le> 90 then c + 32 else c),
          alternative_title = (\<lambda>names v. v @ lit ''1'')\<rparr>
         ((new_worksheet (lit ''Global Ratings''))
            \<lparr>rows := [[VStr (lit ''Global''), VStr (lit ''Rating'')], [VStr (lit ''Mood'')]]\<rparr>)
         (str_nat 2) (Some sheet) True
       = Inr ((new_worksheet (lit ''Global Ratings''))
            \<lparr>rows := [[VStr (lit ''Global''), VStr (lit ''Rating'')], [VStr (lit ''Mood'')]],
             data_validations :=
               [\<lparr>dv_type = lit ''list'',
                 formula1 = lit [CHR 0x27] @ lit ''Mood_G9'' @ lit [CHR 0x27]
                            @ lit ''!$A$2:$A$1'',
                 allow_blank = True,
                 sqref = [\<lparr>min_col = 2, min_row = 2, max_col = 2, max_row_of = 2\<rparr>]\<rparr>]\<rparr>)"
proof -
  let ?X = "\<lparr>py_int = (\<lambda>s. None), py_float = (\<lambda>s. None :: unit option),
        quote_sheetname = (\<lambda>s. lit [CHR 0x27] @ s @ lit [CHR 0x27]),
        py_lower = map (\<lambda>c. if 65 \<le> c \<and> c \<le> 90 then c + 32 else c),
        alternative_title = (\<lambda>names v. v @ lit ''1'')\<rparr>"
  let ?p = "\<lparr>display_name = lit ''Mood'', property_id = lit ''G9'', data_type = lit ''text'',
        decimal_digits = 0, prop_values = [] :: unit property_value list\<rparr>"
  let ?g = "(new_worksheet (lit ''Global Ratings''))
            \<lparr>rows := [[VStr (lit ''Global''), VStr (lit ''Rating'')],
                      [VStr (lit ''Mood'')]]\<rparr> :: unit worksheet"
  have none: "prop_values ?p = []" by simp
  have chars: "\<not> list_ex invalid_title_char (sheet_name_of ?p)"
    by (simp add: sheet_name_of_def invalid_title_char_def lit_def)
  have nocl: "py_lower ?X (sheet_name_of ?p)
                \<notin> set (map (py_lower ?X) (sheetnames (Workbook ())))"
    by (simp add: sheet_name_of_def sheetnames_def Workbook_def new_worksheet_def lit_def)
  have name: "sheet_name_of ?p = lit ''Mood_G9''"
    by (simp add: sheet_name_of_def lit_def)
  have two: "row_in_bounds 2" by (simp add: row_in_bounds_def)
  from empty_property_reference_sheet [OF none chars nocl, of None]
  obtain sheet where
    sheet: "append_validation_sheet ?X (Workbook ()) ?p None = Inr (Workbook () @ [sheet], Some sheet)"
      "title sheet = sheet_name_of ?p"
      "rows sheet = [[VStr (lit ''property_value''), VStr (lit ''property_description''),
                      VStr (lit ''property_value_id''), VStr (lit ''property_id'')]]"
      "max_row sheet = 1"
    and wired: "\<And>data_sheet r. row_in_bounds r \<Longrightarrow>
               set_validation ?X data_sheet (str_nat r) (Some sheet) True
                 = Inr (data_sheet\<lparr>data_validations := data_validations data_sheet
                     @ [\<lparr>dv_type = lit ''list'',
                         formula1 = quote_sheetname ?X (sheet_name_of ?p) @ lit ''!$A$2:$A$1'',
                         allow_blank = True,
                         sqref = [\<lparr>min_col = 2, min_row = r, max_col = 2, max_row_of = r\<rparr>]\<rparr>]\<rparr>)"
    by blast
  from wired [OF two, of ?g] have
    "set_validation ?X ?g (str_nat 2) (Some sheet) True
       = Inr (?g\<lparr>data_validations :=
               [\<lparr>dv_type = lit ''list'',
                 formula1 = lit [CHR 0x27] @ lit ''Mood_G9'' @ lit [CHR 0x27]
                            @ lit ''!$A$2:$A$1'',
                 allow_blank = True,
                 sqref = [\<lparr>min_col = 2, min_row = 2, max_col = 2, max_row_of = 2\<rparr>]\<rparr>]\<rparr>)"
    unfolding name by (simp add: new_worksheet_def)
  with sheet(1,3,4) sheet(2) [unfolded name] show ?thesis by blast
qed

section \<open>Properties of the orchestrator\<close>


lemma wire_property_taken:
  assumes "sheet_name_of cp \<in> set (sheetnames (cs_wb st))"
    and "is_global \<or> property_column st + 1 < 1114112"
  shows "wire_property X st (cp, is_global) = Inl AttributeError"
  using assms
  by (auto simp: wire_property_def append_validation_sheet_taken set_validation_None
        Let_def py_chr_def)





lemma sheet_name_not_data_sheet:
  "sheet_name_of p \<noteq> lit ''Interview''" "sheet_name_of p \<noteq> lit ''Global Ratings''"
proof -
  have u: "95 \<in> set (sheet_name_of p)"
    by (simp add: sheet_name_of_def lit_def)
  have "95 \<notin> set (lit ''Interview'')" "95 \<notin> set (lit ''Global Ratings'')"
    by (simp_all add: lit_def)
  with u show "sheet_name_of p \<noteq> lit ''Interview''" "sheet_name_of p \<noteq> lit ''Global Ratings''"
    by metis+
qed

lemma wire_property_short_sheet:
  assumes fresh: "sheet_name_of cp \<notin> set (sheetnames (cs_wb st))"
    and wb: "cs_wb st \<noteq> []"
    and short: "max_row (cs_wb st ! 0) < 2"
    and pc: "property_column st = 67"
  shows "wire_property X st (cp, False) = Inl ValueError"
proof (cases "append_validation_sheet X (cs_wb st) cp None")
  case (Inl e)
  with append_validation_sheet_Inl [OF Inl] show ?thesis
    by (simp add: wire_property_def)
next
  case (Inr res)
  obtain wb1 r where res: "res = (wb1, r)" by (cases res)
  from append_validation_sheet_new [OF fresh Inr [unfolded res]] obtain s where
    s: "r = Some s" "wb1 = cs_wb st @ [s]"
    by blast
  have first: "wb1 ! 0 = cs_wb st ! 0"
    using wb s(2) by (cases "cs_wb st") simp_all
  have "CellRange ([68] @ lit ''2:'' @ [68] @ str_nat (max_row (cs_wb st ! 0))) = Inl ValueError"
    using CellRange_column [of "[68]" "max_row (cs_wb st ! 0)"] short
    by (simp add: is_alpha_def)
  then have "set_validation X (wb1 ! 0) [68] (Some s) False = Inl ValueError"
    by (simp add: set_validation_def Let_def first)
  with Inr res s(1) pc show ?thesis
    by (simp add: wire_property_def Let_def py_chr_def)
qed

lemma ia2xl_too_many:
  assumes "23 < length (coding_properties iacfg)"
  shows "ia2xl X iacfg interview = Inl ValueError"
proof (cases "utterances interview = []")
  case False
  from build_interview_sheet_fail [OF assms False, of "new_worksheet (lit ''Sheet'')" "[]"]
  show ?thesis
    by (simp add: ia2xl_def Workbook_def)
next
  case True
  show ?thesis
  proof (cases "build_interview_sheet [new_worksheet (lit ''Sheet'')] iacfg interview")
    case (Inl e)
    with build_interview_sheet_no_utterances_error [OF True Inl] show ?thesis
      by (simp add: ia2xl_def Workbook_def)
  next
    case (Inr res)
    obtain wb1 u where res: "res = (wb1, u)" by (cases res)
    from build_interview_sheet_no_utterances [OF True Inr [unfolded res]]
    have u: "length (rows u) = 1" "wb1 = [u]" "title u = lit ''Interview''"
      by (simp_all add: new_worksheet_def)
    from assms obtain cp cps where cps: "coding_properties iacfg = cp # cps"
      by (cases "coding_properties iacfg") auto
    let ?g = "\<lparr>title = lit ''Global Ratings'',
              rows = [VStr (lit ''Global''), VStr (lit ''Rating'')]
                     # map (\<lambda>gp. [VStr (take 32767 (display_name gp))]) (global_properties iacfg),
              unlocked = {(r, c). 1 \<le> r \<and> r \<le> length (global_properties iacfg) + 1
                                  \<and> c = 2},
              data_validations = [], protection_enabled = True,
              protection_password = Some (lit ''Globals''),
              sheet_state = lit ''visible''\<rparr> :: 'a worksheet"
    let ?st = "\<lparr>cs_wb = [u, ?g], property_column = 67, global_row = 1\<rparr>"
    have "wire_property X ?st (cp, False) = Inl ValueError"
      using u sheet_name_not_data_sheet [of cp]
      by (intro wire_property_short_sheet) (simp_all add: sheetnames_def max_row_def)
    then show ?thesis
      using Inr res u(2) cps
      by (simp add: ia2xl_def Workbook_def build_global_sheet_eq)
  qed
qed

text \<open>
  Claim C3. With more than 23 coding properties the conversion raises: no workbook is
  returned, so no coding property is left with an invalid or a wrapped column
  identifier. The 24th identifier would be \<open>chr(91)\<close>, an opening bracket, and the sheet
  refuses the cell reference made from it; without utterances the run has already failed
  at its first coding property, whose range would end above its first row.
\<close>

theorem too_many_coding_properties_raise:
  assumes "23 < length (coding_properties iacfg)"
  shows "ia2xl X iacfg interview = Inl ValueError"
  using assms by (rule ia2xl_too_many)

theorem too_many_coding_properties_raise_witness:
  "ia2xl
     \<lparr>py_int = (\<lambda>s. None), py_float = (\<lambda>s. None :: unit option),
      quote_sheetname = (\<lambda>s. lit [CHR 0x27] @ s @ lit [CHR 0x27]),
      py_lower = map (\<lambda>c. if 65 \<le> c \<and> c \<le> 90 then c + 32 else c),
      alternative_title = (\<lambda>names v. v @ lit ''1'')\<rparr>
     \<lparr>coding_properties =
        replicate 24 \<lparr>display_name = lit ''Code'', property_id = lit ''P1'',
                      data_type = lit ''text'', decimal_digits = 0, prop_values = []\<rparr>,
      global_properties = []\<rparr>
     \<lparr>utterances =
        [\<lparr>line_number = 1, utterance_number = 1, speaker_role = lit ''T'',
          utterance_text = lit ''hello''\<rparr>]\<rparr>
   = Inl ValueError"
  using too_many_coding_properties_raise
    [of "\<lparr>coding_properties =
            replicate 24 \<lparr>display_name = lit ''Code'', property_id = lit ''P1'',
                          data_type = lit ''text'', decimal_digits = 0, prop_values = []\<rparr>,
          global_properties = []\<rparr>"]
  by simp


lemma sheetnames_update:
  "i < length wb \<Longrightarrow> title ds = title (wb ! i) \<Longrightarrow> sheetnames (wb[i := ds]) = sheetnames wb"
  by (simp add: sheetnames_def map_update list_update_same_conv)

lemma wire_property_coding_ok:
  assumes chars: "\<not> list_ex invalid_title_char (sheet_name_of cp)"
    and nocl: "py_lower X (sheet_name_of cp)
                 \<notin> set (map (py_lower X) (sheetnames (cs_wb st)))"
    and vals: "\<forall>pv \<in> set (prop_values cp).
             (data_type cp = lit ''numeric'' \<and> decimal_digits cp = 0
                \<longrightarrow> py_int X (pv_value pv) \<noteq> None)
           \<and> (data_type cp = lit ''numeric'' \<and> decimal_digits cp \<noteq> 0
                \<longrightarrow> py_float X (pv_value pv) \<noteq> None)"
    and wb: "cs_wb st \<noteq> []"
    and pc: "67 \<le> property_column st" "property_column st < 90"
    and mr: "2 \<le> max_row (cs_wb st ! 0)" "max_row (cs_wb st ! 0) \<le> 1048576"
  shows "\<exists>st'. wire_property X st (cp, False) = Inr st'
           \<and> sheetnames (cs_wb st') = sheetnames (cs_wb st) @ [sheet_name_of cp]"
proof -
  let ?wb = "cs_wb st"
  let ?c = "property_column st + 1"
  from append_validation_sheet_ok [OF chars nocl vals, of None] obtain s where
    app: "append_validation_sheet X ?wb cp None = Inr (?wb @ [s], Some s)"
    and ts: "title s = sheet_name_of cp"
    by blast
  have first: "(?wb @ [s]) ! 0 = ?wb ! 0"
    using wb by (cases ?wb) simp_all
  from pc have cap: "65 \<le> ?c" "?c \<le> 90" by simp_all
  from capital_is_alpha [OF cap] have alpha: "is_alpha ?c" by simp
  let ?ds = "(?wb ! 0)\<lparr>data_validations := data_validations (?wb ! 0)
                    @ [\<lparr>dv_type = lit ''list'',
                        formula1 = quote_sheetname X (title s) @ lit ''!$A$2:$A$''
                                     @ str_nat (max_row s),
                        allow_blank = True,
                        sqref = [\<lparr>min_col = column_index_from_string [?c], min_row = 2,
                                  max_col = column_index_from_string [?c],
                                  max_row_of = max_row (?wb ! 0)\<rparr>]\<rparr>]\<rparr>"
  have sv: "set_validation X ((?wb @ [s]) ! 0) [?c] (Some s) False = Inr ?ds"
    unfolding first using alpha mr by (intro set_validation_column) simp_all
  have chr: "py_chr ?c = Inr [?c]"
    using pc by (simp add: py_chr_def)
  have run: "wire_property X st (cp, False)
               = Inr (st\<lparr>cs_wb := (?wb @ [s])[0 := ?ds], property_column := ?c\<rparr>)"
    using app chr sv by (simp add: wire_property_def Let_def)
  have "sheetnames ((?wb @ [s])[0 := ?ds]) = sheetnames (?wb @ [s])"
    using wb first by (intro sheetnames_update) simp_all
  then have "sheetnames ((?wb @ [s])[0 := ?ds]) = sheetnames ?wb @ [sheet_name_of cp]"
    by (simp add: sheetnames_def ts)
  with run show ?thesis by simp
qed









text \<open>
  Claim C1 fails on the code. The builder does return \<open>None\<close> when the sheet name is
  taken, but the orchestrator passes that \<open>None\<close> on to \<open>_set_validation_\<close>, which reads
  \<open>vsheet.title\<close>: the conversion raises AttributeError and returns no workbook. Below, a
  coding property and a global property share the display name Empathy and the id 1.
\<close>

theorem duplicate_sheet_name_raises:
  "ia2xl
     \<lparr>py_int = (\<lambda>s. None), py_float = (\<lambda>s. None :: unit option),
      quote_sheetname = (\<lambda>s. lit [CHR 0x27] @ s @ lit [CHR 0x27]),
      py_lower = map (\<lambda>c. if 65 \<le> c \<and> c \<le> 90 then c + 32 else c),
      alternative_title = (\<lambda>names v. v @ lit ''1'')\<rparr>
     \<lparr>coding_properties =
        [\<lparr>display_name = lit ''Empathy'', property_id = lit ''1'',
          data_type = lit ''text'', decimal_digits = 0,
          prop_values =
            [\<lparr>pv_value = lit ''E'', pv_description = VStr (lit ''empathic''),
              pv_property_value_id = VInt 10, pv_property_id = VInt 1\<rparr>]\<rparr>],
      global_properties =
        [\<lparr>display_name = lit ''Empathy'', property_id = lit ''1'',
          data_type = lit ''text'', decimal_digits = 0,
          prop_values =
            [\<lparr>pv_value = lit ''Low'', pv_description = VStr (lit ''low''),
              pv_property_value_id = VInt 20, pv_property_id = VInt 1\<rparr>]\<rparr>]\<rparr>
     \<lparr>utterances =
        [\<lparr>line_number = 1, utterance_number = 1, speaker_role = lit ''T'',
          utterance_text = lit ''hello''\<rparr>]\<rparr>
   = Inl AttributeError"
proof -
  let ?X = "\<lparr>py_int = (\<lambda>s. None), py_float = (\<lambda>s. None :: unit option),
      quote_sheetname = (\<lambda>s. lit [CHR 0x27] @ s @ lit [CHR 0x27]),
      py_lower = map (\<lambda>c. if 65 \<le> c \<and> c \<le> 90 then c + 32 else c),
      alternative_title = (\<lambda>names v. v @ lit ''1'')\<rparr>"
  let ?c = "\<lparr>display_name = lit ''Empathy'', property_id = lit ''1'',
          data_type = lit ''text'', decimal_digits = 0,
          prop_values =
            [\<lparr>pv_value = lit ''E'', pv_description = VStr (lit ''empathic''),
              pv_property_value_id = VInt 10, pv_property_id = VInt 1\<rparr>]\<rparr> :: unit property"
  let ?g = "\<lparr>display_name = lit ''Empathy'', property_id = lit ''1'',
          data_type = lit ''text'', decimal_digits = 0,
          prop_values =
            [\<lparr>pv_value = lit ''Low'', pv_description = VStr (lit ''low''),
              pv_property_value_id = VInt 20, pv_property_id = VInt 1\<rparr>]\<rparr> :: unit property"
  let ?cfg = "\<lparr>coding_properties = [?c], global_properties = [?g]\<rparr>"
  let ?iv = "\<lparr>utterances =
        [\<lparr>line_number = 1, utterance_number = 1, speaker_role = lit ''T'',
          utterance_text = lit ''hello''\<rparr>]\<rparr>"
  let ?u = "\<lparr>title = lit ''Interview'',
            rows = [map VStr [lit ''Line'', lit ''Utt'', lit ''Role'', lit ''Empathy'',
                              lit ''Text''],
                    [VInt 1, VInt 1, VStr (lit ''T''), VNone, VStr (lit ''hello'')]],
            unlocked = {(r, c). 1 \<le> r \<and> r < 1 + length (utterances ?iv)
                                \<and> 4 \<le> c \<and> c < 4 + length (coding_properties ?cfg)},
            data_validations = [], protection_enabled = True,
            protection_password = Some (lit ''Interview''),
            sheet_state = lit ''visible''\<rparr> :: unit worksheet"
  let ?gs = "\<lparr>title = lit ''Global Ratings'',
            rows = [[VStr (lit ''Global''), VStr (lit ''Rating'')], [VStr (lit ''Empathy'')]],
            unlocked = {(r, c). 1 \<le> r \<and> r \<le> length (global_properties ?cfg) + 1 \<and> c = 2},
            data_validations = [], protection_enabled = True,
            protection_password = Some (lit ''Globals''),
            sheet_state = lit ''visible''\<rparr> :: unit worksheet"
  let ?st0 = "\<lparr>cs_wb = [?u, ?gs], property_column = 67, global_row = 1\<rparr>"
  have bi: "build_interview_sheet (Workbook ()) ?cfg ?iv = Inr ([?u], ?u)"
    using build_interview_sheet_ok [of ?cfg "new_worksheet (lit ''Sheet'')" "[]" ?iv]
    by (simp add: Workbook_def new_worksheet_def length_lit)
  have bg: "build_global_sheet [?u] ?cfg = Inr ([?u, ?gs], ?gs)"
    by (simp add: build_global_sheet_eq length_lit)
  have "\<exists>st1. wire_property ?X ?st0 (?c, False) = Inr st1
           \<and> sheetnames (cs_wb st1) = sheetnames (cs_wb ?st0) @ [sheet_name_of ?c]"
    by (rule wire_property_coding_ok)
       (simp_all add: sheetnames_def sheet_name_of_def max_row_def lit_def
          invalid_title_char_def)
  then obtain st1 where
    first: "wire_property ?X ?st0 (?c, False) = Inr st1"
    and names1: "sheetnames (cs_wb st1) = sheetnames (cs_wb ?st0) @ [sheet_name_of ?c]"
    by blast
  have "sheet_name_of ?g \<in> set (sheetnames (cs_wb st1))"
    by (simp add: names1 sheet_name_of_def)
  then have second: "wire_property ?X st1 (?g, True) = Inl AttributeError"
    by (intro wire_property_taken) simp_all
  from bi bg first second show ?thesis
    by (simp add: ia2xl_def)
qed

end
